theory Spec2Isabelle
  imports Main "HOL-Library.Sublist" "HOL-Library.Log_Nat" "HOL-Library.Word"
begin

section \<open>Go values\<close>

text \<open>
  A Go \<^verbatim>\<open>string\<close> is a sequence of bytes; \<^typ>\<open>string\<close> (a list of 8-bit
  characters) is the same thing, and \<^const>\<open>length\<close> is Go's \<^verbatim>\<open>len\<close>. Text that
  is not ASCII is written byte by byte in its UTF-8 encoding. A Go \<^verbatim>\<open>error\<close> is only ever
  compared with \<^verbatim>\<open>nil\<close> or read through \<^verbatim>\<open>Error()\<close> by this client, so an error
  is its message, and \<^verbatim>\<open>fmt.Errorf("p: %w", err)\<close> is the prefix followed by the message.
  A Go \<^verbatim>\<open>int\<close> is only compared and printed here, never computed with beyond
  string lengths, so it is an \<^typ>\<open>int\<close>.
\<close>

type_synonym error = string

definition dq :: string where
  "dq = [CHR 0x22]"

definition bsl :: string where
  "bsl = [CHR 0x5C]"

definition isASCII :: "char \<Rightarrow> bool" where
  "isASCII c = ((of_char c :: nat) < 128)"

subsection \<open>strings.Contains\<close>

fun Contains :: "string \<Rightarrow> string \<Rightarrow> bool" where
  "Contains [] substr = (substr = [])"
| "Contains (c # s) substr = (prefix substr (c # s) \<or> Contains s substr)"

subsection \<open>fmt.Sprintf("%d", n)\<close>

definition digit :: "nat \<Rightarrow> char" where
  "digit n = char_of (48 + n)"

fun decimal :: "nat \<Rightarrow> string" where
  "decimal n = (if n < 10 then [digit n] else decimal (n div 10) @ [digit (n mod 10)])"

declare decimal.simps [simp del]

definition Sprintf_d :: "int \<Rightarrow> string" where
  "Sprintf_d i = (if i < 0 then CHR ''-'' # decimal (nat (- i)) else decimal (nat i))"

section \<open>The world outside the client\<close>

text \<open>
  The portal, the transport and the parts of Go's standard library whose behaviour the
  client does not fix are parameters of the model, collected in one record. Every
  theorem below holds for every such world.

  A request carries its method, URL, headers and form (\<^verbatim>\<open>url.Values\<close> before
  \<^verbatim>\<open>Encode\<close>). The portal answers a request knowing every request sent before it on
  the same \<^verbatim>\<open>http.Client\<close> (cookies, server state): \<open>respond\<close> takes that history.
\<close>

record request =
  http_method :: string
  url :: string
  headers :: "(string \<times> string) list"
  form :: "(string \<times> string) list"

datatype http_result =
    DoError error        \<comment> \<open>\<^verbatim>\<open>httpClient.Do\<close>/\<^verbatim>\<open>Get\<close> returned an error\<close>
  | ReadError error      \<comment> \<open>\<^verbatim>\<open>io.ReadAll(resp.Body)\<close> returned an error\<close>
  | Body string          \<comment> \<open>the response body, read to its end\<close>

datatype json =
    JString string
  | JNumber "64 word"    \<comment> \<open>a \<^verbatim>\<open>float64\<close>, as its IEEE 754 bits\<close>
  | JOther               \<comment> \<open>null, a boolean, an array or an object\<close>

record RecipientListItem =
  IdAlici :: int
  AliciAdi :: string
  Vnktckn :: string
  WebSite :: string
  Telefon :: string
  FaturaGonderimSekli :: int
  IdIl :: int
  IdIlce :: int
  IlceAdi :: string
  IlAdi :: string
  IdVergiDairesi :: int
  Fax :: string
  Email_item :: string
  SokakAdi :: string
  BinaNo :: string
  PostaKodu :: string
  AliciTipi :: int
  IdAliciTipi :: int
  IdFirma :: int
  IdAnaFirma :: int
  State :: int
  IdAliciKaynak :: string
  MusteriNo :: string
  IrsaliyeAlicisi :: bool
  StateName :: string
  MaskingRecipientName :: string

record RecipientListResponse =
  Draw :: int
  RecordsTotal :: int
  RecordsFiltered :: int
  Data :: "RecipientListItem list"

record world =
  respond :: "request list \<Rightarrow> request \<Rightarrow> http_result"
  NewRequest :: "string \<Rightarrow> string \<Rightarrow> error option"
    \<comment> \<open>the error of \<^verbatim>\<open>http.NewRequest(method, url, body)\<close>, if any\<close>
  FindStringSubmatch :: "string \<Rightarrow> string \<Rightarrow> string list"
    \<comment> \<open>\<^verbatim>\<open>regexp.MustCompile(pattern).FindStringSubmatch(s)\<close>\<close>
  Unmarshal_object :: "string \<Rightarrow> error + (string \<Rightarrow> json option)"
    \<comment> \<open>\<^verbatim>\<open>json.Unmarshal\<close> into a \<^verbatim>\<open>map[string]interface{}\<close>\<close>
  Unmarshal_list :: "string \<Rightarrow> error + RecipientListResponse"
    \<comment> \<open>\<^verbatim>\<open>json.Unmarshal\<close> into a \<^verbatim>\<open>RecipientListResponse\<close>\<close>
  Sprintf_f0 :: "64 word \<Rightarrow> string"
    \<comment> \<open>\<^verbatim>\<open>fmt.Sprintf("%.0f", x)\<close>\<close>
  Sscanf_d :: "string \<Rightarrow> int option"
    \<comment> \<open>the integer \<^verbatim>\<open>fmt.Sscanf(s, "%d", &result)\<close> stores, if it stores one\<close>
  Map_ToLower :: "string \<Rightarrow> string"
    \<comment> \<open>\<^verbatim>\<open>strings.Map(unicode.ToLower, s)\<close>, for a string that is not all ASCII\<close>
  TrimFunc_IsSpace :: "string \<Rightarrow> string"
    \<comment> \<open>\<^verbatim>\<open>strings.TrimFunc(s, unicode.IsSpace)\<close>\<close>
  TrimRightFunc_IsSpace :: "string \<Rightarrow> string"
    \<comment> \<open>\<^verbatim>\<open>strings.TrimRightFunc(s, unicode.IsSpace)\<close>\<close>

subsection \<open>strings.ToLower and strings.TrimSpace\<close>

text \<open>
  Both functions of the standard library have an ASCII path, modelled here as it is
  written there, and hand a string with a byte of 0x80 or more to the Unicode tables,
  which the world supplies.
\<close>

definition lowerASCII :: "char \<Rightarrow> char" where
  "lowerASCII c =
     (let n = (of_char c :: nat) in if 65 \<le> n \<and> n \<le> 90 then char_of (n + 32) else c)"

definition ToLower :: "world \<Rightarrow> string \<Rightarrow> string" where
  "ToLower W s = (if list_all isASCII s then map lowerASCII s else Map_ToLower W s)"

definition asciiSpace :: "char \<Rightarrow> bool" where
  "asciiSpace c = (c = CHR 0x09 \<or> c = CHR 0x0A \<or> c = CHR 0x0B \<or> c = CHR 0x0C
                   \<or> c = CHR 0x0D \<or> c = CHR 0x20)"

text \<open>The second loop of \<^verbatim>\<open>TrimSpace\<close> walks back from the end; \<open>r\<close> is what is left of
  the string, reversed.\<close>

fun TrimSpace_stop :: "world \<Rightarrow> string \<Rightarrow> string" where
  "TrimSpace_stop W [] = []"
| "TrimSpace_stop W (c # r) =
     (if \<not> isASCII c then TrimRightFunc_IsSpace W (rev (c # r))
      else if asciiSpace c then TrimSpace_stop W r
      else rev (c # r))"

fun TrimSpace :: "world \<Rightarrow> string \<Rightarrow> string" where
  "TrimSpace W [] = []"
| "TrimSpace W (c # s) =
     (if \<not> isASCII c then TrimFunc_IsSpace W (c # s)
      else if asciiSpace c then TrimSpace W s
      else TrimSpace_stop W (rev (c # s)))"

section \<open>client.go: the client and its token\<close>

record Config =
  BaseURL :: string
  CompanyID :: string
  MeasureUnit :: int
  CurrencyCode :: string
  Timeout :: int

text \<open>
  \<open>sent\<close> stands for the \<^verbatim>\<open>httpClient\<close> field: the requests this client has issued
  so far, oldest first. It is what the cookie jar and the portal can know of the session.
\<close>

record Client =
  sent :: "request list"
  config :: Config
  token :: string

record Customer =
  Name :: string
  TaxNumber :: string
  Email :: string
  Phone :: string
  Address :: string
  CityID :: string
  CityName :: string
  DistrictID :: string
  PostalCode :: string
  BuildingNo :: string
  TaxOfficeID :: string
  CustomerType :: int
  SendingType :: int

text \<open>Issuing a request: the portal answers, and the request joins the history.\<close>

definition Do :: "world \<Rightarrow> Client \<Rightarrow> request \<Rightarrow> http_result \<times> Client" where
  "Do W c req = (respond W (sent c) req, c\<lparr>sent := sent c @ [req]\<rparr>)"

definition xhr :: "(string \<times> string) list" where
  "xhr = [(''X-Requested-With'', ''XMLHttpRequest'')]"

definition form_headers :: "(string \<times> string) list" where
  "form_headers =
     [(''Content-Type'', ''application/x-www-form-urlencoded; charset=UTF-8'')] @ xhr"

subsection \<open>updateToken\<close>

definition token_pattern :: string where
  "token_pattern = ''name='' @ dq @ ''__RequestVerificationToken'' @ dq @ ''.*?value='' @ dq
                   @ ''([^'' @ dq @ '']+)'' @ dq"

definition err_token_not_found :: error where
  "err_token_not_found = ''token bulunamad'' @ [CHR 0xC4, CHR 0xB1]"

definition updateToken :: "world \<Rightarrow> Client \<Rightarrow> string \<Rightarrow> error option \<times> Client" where
  "updateToken W c path =
     (case Do W c \<lparr>http_method = ''GET'', url = BaseURL (config c) @ path, headers = [], form = []\<rparr> of
        (DoError err, c1) \<Rightarrow> (Some err, c1)
      | (ReadError err, c1) \<Rightarrow> (Some err, c1)
      | (Body body, c1) \<Rightarrow>
          (let matches = FindStringSubmatch W token_pattern body in
           if length matches < 2 then (Some err_token_not_found, c1)
           else (None, c1\<lparr>token := matches ! 1\<rparr>)))"

subsection \<open>CreateCustomer\<close>

definition err_name_required :: error where
  "err_name_required = ''m'' @ [CHR 0xC3, CHR 0xBC, CHR 0xC5, CHR 0x9F] @ ''teri ad''
                        @ [CHR 0xC4, CHR 0xB1] @ '' zorunludur''"

definition err_tax_number_required :: error where
  "err_tax_number_required = ''TC kimlik no zorunludur''"

definition err_email_required :: error where
  "err_email_required = ''elektronik g'' @ [CHR 0xC3, CHR 0xB6] @ ''nderim i''
                         @ [CHR 0xC3, CHR 0xA7] @ ''in e-posta zorunludur''"

definition pre_token_update :: string where
  "pre_token_update = ''token g'' @ [CHR 0xC3, CHR 0xBC] @ ''ncellenemedi: ''"

definition pre_new_request :: string where
  "pre_new_request = ''request olu'' @ [CHR 0xC5, CHR 0x9F] @ ''turulamad''
                      @ [CHR 0xC4, CHR 0xB1] @ '': ''"

definition pre_create_do :: string where
  "pre_create_do = ''m'' @ [CHR 0xC3, CHR 0xBC, CHR 0xC5, CHR 0x9F] @ ''teri olu''
                    @ [CHR 0xC5, CHR 0x9F] @ ''turma iste'' @ [CHR 0xC4, CHR 0x9F]
                    @ ''i ba'' @ [CHR 0xC5, CHR 0x9F] @ ''ar'' @ [CHR 0xC4, CHR 0xB1]
                    @ ''s'' @ [CHR 0xC4, CHR 0xB1] @ ''z: ''"

definition pre_read :: string where
  "pre_read = ''response okunamad'' @ [CHR 0xC4, CHR 0xB1] @ '': ''"

definition pre_json :: string where
  "pre_json = ''JSON parse hatas'' @ [CHR 0xC4, CHR 0xB1] @ '': ''"

definition pre_create_failed :: string where
  "pre_create_failed = ''m'' @ [CHR 0xC3, CHR 0xBC, CHR 0xC5, CHR 0x9F] @ ''teri olu''
                        @ [CHR 0xC5, CHR 0x9F] @ ''turma hatas'' @ [CHR 0xC4, CHR 0xB1] @ '': ''"

definition pre_id_missing :: string where
  "pre_id_missing = ''m'' @ [CHR 0xC3, CHR 0xBC, CHR 0xC5, CHR 0x9F] @ ''teri ID bulunamad''
                     @ [CHR 0xC4, CHR 0xB1] @ '': ''"

text \<open>\<^verbatim>\<open>client.go\<close>, lines 189-198: the three checks, in the source's order.\<close>

definition validation_error :: "Customer \<Rightarrow> error option" where
  "validation_error customer =
     (if Name customer = [] then Some err_name_required
      else if TaxNumber customer = [] then Some err_tax_number_required
      else if SendingType customer = 1 \<and> Email customer = [] then Some err_email_required
      else None)"

text \<open>\<^verbatim>\<open>client.go\<close>, lines 200-212: the defaults, applied to the function's copy of the customer.\<close>

definition apply_defaults :: "Customer \<Rightarrow> Customer" where
  "apply_defaults customer =
     (let customer = (if CustomerType customer = 0 then customer\<lparr>CustomerType := 1\<rparr> else customer);
          customer = (if SendingType customer = 0 then customer\<lparr>SendingType := 1\<rparr> else customer);
          customer = (if TaxOfficeID customer = [] then customer\<lparr>TaxOfficeID := ''-1''\<rparr> else customer);
          customer = (if BuildingNo customer = [] then customer\<lparr>BuildingNo := ''1''\<rparr> else customer)
      in customer)"

text \<open>\<^verbatim>\<open>client.go\<close>, lines 214-235: the form that is posted.\<close>

definition create_form :: "Client \<Rightarrow> Customer \<Rightarrow> (string \<times> string) list" where
  "create_form c customer =
     [(''AliciAdi'', Name customer),
      (''Vnktckn'', TaxNumber customer),
      (''Email'', Email customer),
      (''Telefon'', Phone customer),
      (''FaturaGonderimSekli'', Sprintf_d (SendingType customer)),
      (''IdIl'', CityID customer),
      (''IdIlce'', DistrictID customer),
      (''IlAdi'', CityName customer),
      (''IdVergiDairesi'', TaxOfficeID customer),
      (''SokakAdi'', Address customer),
      (''BinaNo'', BuildingNo customer),
      (''PostaKodu'', PostalCode customer),
      (''AliciTipi'', Sprintf_d (CustomerType customer)),
      (''IdAliciTipi'', ''1''),
      (''IdFirma'', CompanyID (config c)),
      (''WebSite'', []),
      (''Fax'', []),
      (''Musterino'', []),
      (''IrsaliyeAlicisi'', ''false''),
      (''__RequestVerificationToken'', token c)]"

text \<open>\<^verbatim>\<open>v, ok := result[key].(string); ok && v != ""\<close>\<close>

definition nonempty_string :: "(string \<Rightarrow> json option) \<Rightarrow> string \<Rightarrow> string option" where
  "nonempty_string result k =
     (case result k of Some (JString v) \<Rightarrow> (if v \<noteq> [] then Some v else None) | _ \<Rightarrow> None)"

text \<open>\<^verbatim>\<open>client.go\<close>, lines 256-275: reading the portal's answer.\<close>

definition read_create_response :: "world \<Rightarrow> string \<Rightarrow> error + string" where
  "read_create_response W body =
     (case Unmarshal_object W body of
        Inl err \<Rightarrow> Inl (pre_json @ err)
      | Inr result \<Rightarrow>
          (case nonempty_string result ''error'' of
             Some errorMsg \<Rightarrow> Inl (pre_create_failed @ errorMsg)
           | None \<Rightarrow>
               (case nonempty_string result ''ErrorMessage'' of
                  Some errorMsg \<Rightarrow> Inl (pre_create_failed @ errorMsg)
                | None \<Rightarrow>
                    (case result ''IdAlici'' of
                       Some (JNumber idAlici) \<Rightarrow> Inr (Sprintf_f0 W idAlici)
                     | _ \<Rightarrow> Inl (pre_id_missing @ body)))))"

definition CreateCustomer :: "world \<Rightarrow> Client \<Rightarrow> Customer \<Rightarrow> (error + string) \<times> Client" where
  "CreateCustomer W c customer =
     (case updateToken W c ''/Invoice/CreateQuick'' of
        (Some err, c1) \<Rightarrow> (Inl (pre_token_update @ err), c1)
      | (None, c1) \<Rightarrow>
          (case validation_error customer of
             Some err \<Rightarrow> (Inl err, c1)
           | None \<Rightarrow>
               (let customer = apply_defaults customer;
                    form = create_form c1 customer;
                    u = BaseURL (config c1) @ ''/Recipient/Create''
                in case NewRequest W ''POST'' u of
                     Some err \<Rightarrow> (Inl (pre_new_request @ err), c1)
                   | None \<Rightarrow>
                       (case Do W c1 \<lparr>http_method = ''POST'', url = u, headers = form_headers,
                                      form = form\<rparr> of
                          (DoError err, c2) \<Rightarrow> (Inl (pre_create_do @ err), c2)
                        | (ReadError err, c2) \<Rightarrow> (Inl (pre_read @ err), c2)
                        | (Body body, c2) \<Rightarrow> (read_create_response W body, c2)))))"

section \<open>The recipient list and the recipient's detail page\<close>

text \<open>
  The recipient functions, the similarity score and \<^verbatim>\<open>CreateCustomerOrGetExisting\<close>
  are in the longer copy of the client (965 lines), which repeats \<^verbatim>\<open>client.go\<close>;
  their line numbers below are that file's.
\<close>

subsection \<open>GetRecipientList\<close>

definition pre_list_do :: string where
  "pre_list_do = ''m'' @ [CHR 0xC3, CHR 0xBC, CHR 0xC5, CHR 0x9F] @ ''teri listesi iste''
                  @ [CHR 0xC4, CHR 0x9F] @ ''i ba'' @ [CHR 0xC5, CHR 0x9F] @ ''ar''
                  @ [CHR 0xC4, CHR 0xB1] @ ''s'' @ [CHR 0xC4, CHR 0xB1] @ ''z: ''"

definition columns :: "(string \<times> string \<times> string) list" where
  "columns =
     [(''IdAlici'', ''false'', ''false''),
      (''ActionButtons'', ''true'', ''false''),
      (''AliciAdi'', ''true'', ''false''),
      (''Vnktckn'', ''true'', ''false''),
      (''StateName'', ''true'', ''false''),
      (''idAliciKaynak'', ''true'', ''false'')]"

definition column_params :: "nat \<times> string \<times> string \<times> string \<Rightarrow> (string \<times> string) list" where
  "column_params ic =
     (case ic of (i, data, searchable, orderable) \<Rightarrow>
        (let col = ''columns['' @ Sprintf_d (int i) @ '']'' in
         [(col @ ''[data]'', data),
          (col @ ''[name]'', []),
          (col @ ''[searchable]'', searchable),
          (col @ ''[orderable]'', orderable),
          (col @ ''[search][value]'', []),
          (col @ ''[search][regex]'', ''false'')]))"

definition list_form :: "Client \<Rightarrow> int \<Rightarrow> (string \<times> string) list" where
  "list_form c limit =
     [(''draw'', ''1''),
      (''start'', ''0''),
      (''length'', Sprintf_d limit),
      (''search[value]'', []),
      (''search[regex]'', ''false''),
      (''AliciTipi'', ''0''),
      (''CompanyIdFilter'', CompanyID (config c)),
      (''RecipientState'', ''1'')]
     @ concat (map column_params (enumerate 0 columns))"

definition GetRecipientList ::
  "world \<Rightarrow> Client \<Rightarrow> int \<Rightarrow> (error + RecipientListResponse) \<times> Client" where
  "GetRecipientList W c limit =
     (let limit = (if limit \<le> 0 then 200 else limit);
          u = BaseURL (config c) @ ''/Recipient/GetRecipientList''
      in case NewRequest W ''POST'' u of
           Some err \<Rightarrow> (Inl (pre_new_request @ err), c)
         | None \<Rightarrow>
             (case Do W c \<lparr>http_method = ''POST'', url = u, headers = form_headers,
                           form = list_form c limit\<rparr> of
                (DoError err, c1) \<Rightarrow> (Inl (pre_list_do @ err), c1)
              | (ReadError err, c1) \<Rightarrow> (Inl (pre_read @ err), c1)
              | (Body body, c1) \<Rightarrow>
                  (case Unmarshal_list W body of
                     Inl err \<Rightarrow> (Inl (pre_json @ err), c1)
                   | Inr result \<Rightarrow> (Inr result, c1))))"

subsection \<open>GetRecipientDetail\<close>

definition pre_detail_do :: string where
  "pre_detail_do = ''m'' @ [CHR 0xC3, CHR 0xBC, CHR 0xC5, CHR 0x9F] @ ''teri detay iste''
                    @ [CHR 0xC4, CHR 0x9F] @ ''i ba'' @ [CHR 0xC5, CHR 0x9F] @ ''ar''
                    @ [CHR 0xC4, CHR 0xB1] @ ''s'' @ [CHR 0xC4, CHR 0xB1] @ ''z: ''"

text \<open>The pattern \<^verbatim>\<open>id="F"\s+value="([^"]+)"\<close> for the field \<open>F\<close>.\<close>

definition value_pattern :: "string \<Rightarrow> string" where
  "value_pattern f = ''id='' @ dq @ f @ dq @ bsl @ ''s+value='' @ dq @ ''([^'' @ dq @ '']+)'' @ dq"

definition city_pattern :: string where
  "city_pattern = ''id='' @ dq @ ''CityId'' @ dq @ ''.*?<option'' @ bsl @ ''s+value='' @ dq
                  @ ''('' @ bsl @ ''d+)'' @ dq @ bsl @ ''s+selected>([^<]+)</option>''"

text \<open>\<^verbatim>\<open>&Customer{}\<close>: every field at its zero value.\<close>

definition zero_Customer :: Customer where
  "zero_Customer =
     \<lparr>Name = [], TaxNumber = [], Email = [], Phone = [], Address = [], CityID = [],
      CityName = [], DistrictID = [], PostalCode = [], BuildingNo = [], TaxOfficeID = [],
      CustomerType = 0, SendingType = 0\<rparr>"

text \<open>Lines 711-759: the fields are read from the page one after the other; a pattern
  that does not match leaves its field as it is. No line assigns \<open>DistrictID\<close>.\<close>

definition scrape_detail :: "world \<Rightarrow> string \<Rightarrow> Customer" where
  "scrape_detail W htmlStr =
     (let customer = zero_Customer;
          matches = FindStringSubmatch W (value_pattern ''AliciAdi'') htmlStr;
          customer = (if length matches > 1
                      then customer\<lparr>Name := TrimSpace W (matches ! 1)\<rparr> else customer);
          matches = FindStringSubmatch W (value_pattern ''VknTckn'') htmlStr;
          customer = (if length matches > 1
                      then customer\<lparr>TaxNumber := matches ! 1\<rparr> else customer);
          matches = FindStringSubmatch W (value_pattern ''Email'') htmlStr;
          customer = (if length matches > 1
                      then customer\<lparr>Email := matches ! 1\<rparr> else customer);
          matches = FindStringSubmatch W (value_pattern ''Telefon'') htmlStr;
          customer = (if length matches > 1
                      then customer\<lparr>Phone := matches ! 1\<rparr> else customer);
          matches = FindStringSubmatch W (value_pattern ''SokakAdi'') htmlStr;
          customer = (if length matches > 1
                      then customer\<lparr>Address := matches ! 1\<rparr> else customer);
          matches = FindStringSubmatch W (value_pattern ''PostaKodu'') htmlStr;
          customer = (if length matches > 1
                      then customer\<lparr>PostalCode := matches ! 1\<rparr> else customer);
          matches = FindStringSubmatch W (value_pattern ''BinaNo'') htmlStr;
          customer = (if length matches > 1
                      then customer\<lparr>BuildingNo := matches ! 1\<rparr> else customer);
          matches = FindStringSubmatch W city_pattern htmlStr;
          customer = (if length matches > 2
                      then customer\<lparr>CityID := matches ! 1,
                                     CityName := TrimSpace W (matches ! 2)\<rparr> else customer)
      in customer)"

definition GetRecipientDetail ::
  "world \<Rightarrow> Client \<Rightarrow> int \<Rightarrow> (error + Customer) \<times> Client" where
  "GetRecipientDetail W c recipientID =
     (let u = BaseURL (config c) @ ''/Recipient/Detail?RecipientId='' @ Sprintf_d recipientID
      in case NewRequest W ''GET'' u of
           Some err \<Rightarrow> (Inl (pre_new_request @ err), c)
         | None \<Rightarrow>
             (case Do W c \<lparr>http_method = ''GET'', url = u, headers = xhr, form = []\<rparr> of
                (DoError err, c1) \<Rightarrow> (Inl (pre_detail_do @ err), c1)
              | (ReadError err, c1) \<Rightarrow> (Inl (pre_read @ err), c1)
              | (Body body, c1) \<Rightarrow> (Inr (scrape_detail W body), c1)))"

section \<open>float64\<close>

text \<open>
  A finite \<^verbatim>\<open>float64\<close> is the rational number it denotes, and an operation is the exact
  operation followed by rounding to the nearest \<^verbatim>\<open>float64\<close>, ties to the even
  significand (IEEE 754 binary64: 53 significant bits, least exponent \<open>-1022\<close>).
  Overflow to infinity is not modelled; every value computed below lies between \<open>0\<close>
  and the length of a string. \<open>ilog2 x\<close> is the integer \<open>e\<close> with
  \<open>2\<^sup>e \<le> x < 2\<^sup>e\<^sup>+\<^sup>1\<close>, for a positive \<open>x\<close>.
\<close>

definition round_half_even :: "rat \<Rightarrow> int" where
  "round_half_even x =
     (let f = \<lfloor>x\<rfloor>; d = x - of_int f in
      if d < 1 / 2 then f else if 1 / 2 < d then f + 1 else if even f then f else f + 1)"

definition ilog2 :: "rat \<Rightarrow> int" where
  "ilog2 x =
     (case quotient_of x of (p, q) \<Rightarrow>
        (let k = bitlen p - bitlen q in if 2 powi k \<le> x then k else k - 1))"

text \<open>The gap between neighbouring \<^verbatim>\<open>float64\<close> values around \<open>x\<close>.\<close>

definition ulp :: "rat \<Rightarrow> rat" where
  "ulp x = 2 powi (max (ilog2 \<bar>x\<bar>) (- 1022) - 52)"

definition fl64 :: "rat \<Rightarrow> rat" where
  "fl64 x = (if x = 0 then 0 else of_int (round_half_even (x / ulp x)) * ulp x)"

definition float64_of_int :: "int \<Rightarrow> rat" where
  "float64_of_int n = fl64 (of_int n)"

definition fadd :: "rat \<Rightarrow> rat \<Rightarrow> rat" where
  "fadd a b = fl64 (a + b)"

definition fsub :: "rat \<Rightarrow> rat \<Rightarrow> rat" where
  "fsub a b = fl64 (a - b)"

definition fmul :: "rat \<Rightarrow> rat \<Rightarrow> rat" where
  "fmul a b = fl64 (a * b)"

definition fdiv :: "rat \<Rightarrow> rat \<Rightarrow> rat" where
  "fdiv a b = fl64 (a / b)"

text \<open>The constants \<^verbatim>\<open>0.5\<close>, \<^verbatim>\<open>0.3\<close> and \<^verbatim>\<open>0.2\<close> of the source, as \<^verbatim>\<open>float64\<close>.\<close>

definition c05 :: rat where
  "c05 = fl64 (5 / 10)"

definition c03 :: rat where
  "c03 = fl64 (3 / 10)"

definition c02 :: rat where
  "c02 = fl64 (2 / 10)"

section \<open>Similarity of two addresses\<close>

text \<open>\<^verbatim>\<open>min\<close> of the source: the least of three integers.\<close>

definition min_of3 :: "int \<Rightarrow> int \<Rightarrow> int \<Rightarrow> int" where
  "min_of3 a b c = (if a < b then (if a < c then a else c) else if b < c then b else c)"

text \<open>
  \<^verbatim>\<open>levenshteinDistance\<close> fills a matrix of \<open>len(s1)+1\<close> rows and \<open>len(s2)+1\<close>
  columns, byte against byte. \<open>set_cell\<close> is the assignment \<^verbatim>\<open>matrix[i][j] = v\<close>; every
  index below is within the matrix.
\<close>

definition set_cell :: "int list list \<Rightarrow> nat \<Rightarrow> nat \<Rightarrow> int \<Rightarrow> int list list" where
  "set_cell matrix i j v = matrix[i := (matrix ! i)[j := v]]"

definition fill_cell :: "string \<Rightarrow> string \<Rightarrow> nat \<Rightarrow> int list list \<Rightarrow> nat \<Rightarrow> int list list" where
  "fill_cell s1 s2 i matrix j =
     (let cost = (if s1 ! (i - 1) \<noteq> s2 ! (j - 1) then 1 else 0) in
      set_cell matrix i j
        (min_of3 (matrix ! (i - 1) ! j + 1)
                 (matrix ! i ! (j - 1) + 1)
                 (matrix ! (i - 1) ! (j - 1) + cost)))"

definition levenshteinDistance :: "string \<Rightarrow> string \<Rightarrow> int" where
  "levenshteinDistance s1 s2 =
     (if length s1 = 0 then int (length s2)
      else if length s2 = 0 then int (length s1)
      else
        (let matrix = replicate (length s1 + 1) (replicate (length s2 + 1) 0);
             matrix = foldl (\<lambda>m i. set_cell m i 0 (int i)) matrix [0..<length s1 + 1];
             matrix = foldl (\<lambda>m j. set_cell m 0 j (int j)) matrix [0..<length s2 + 1];
             matrix = foldl (\<lambda>m i. foldl (fill_cell s1 s2 i) m [1..<length s2 + 1])
                        matrix [1..<length s1 + 1]
         in matrix ! length s1 ! length s2))"

definition calculateSimilarityScore :: "world \<Rightarrow> string \<Rightarrow> string \<Rightarrow> rat" where
  "calculateSimilarityScore W s1 s2 =
     (let s1 = ToLower W (TrimSpace W s1);
          s2 = ToLower W (TrimSpace W s2)
      in if s1 = s2 then 1
         else if s1 = [] \<or> s2 = [] then 0
         else
           (let longer = (if length s1 < length s2 then s2 else s1);
                shorter = (if length s1 < length s2 then s1 else s2);
                longerLength = float64_of_int (int (length longer))
            in if longerLength = 0 then 1
               else
                 (let editDistance = levenshteinDistance longer shorter in
                  fdiv (fsub longerLength (float64_of_int editDistance)) longerLength)))"

definition parseIntOrZero :: "world \<Rightarrow> string \<Rightarrow> int" where
  "parseIntOrZero W s = (case Sscanf_d W s of Some result \<Rightarrow> result | None \<Rightarrow> 0)"

section \<open>CreateCustomerOrGetExisting\<close>

definition already_registered :: string where
  "already_registered = ''zaten kay'' @ [CHR 0xC4, CHR 0xB1] @ ''tl'' @ [CHR 0xC4, CHR 0xB1]
                         @ ''d'' @ [CHR 0xC4, CHR 0xB1] @ ''r''"

definition pre_list_failed :: string where
  "pre_list_failed = ''m'' @ [CHR 0xC3, CHR 0xBC, CHR 0xC5, CHR 0x9F] @ ''teri listesi al''
                      @ [CHR 0xC4, CHR 0xB1] @ ''namad'' @ [CHR 0xC4, CHR 0xB1] @ '': ''"

definition pre_not_in_list :: string where
  "pre_not_in_list = ''m'' @ [CHR 0xC3, CHR 0xBC, CHR 0xC5, CHR 0x9F] @ ''teri zaten kay''
                      @ [CHR 0xC4, CHR 0xB1] @ ''tl'' @ [CHR 0xC4, CHR 0xB1]
                      @ '' ancak listede bulunamad'' @ [CHR 0xC4, CHR 0xB1] @ '': ''"

record scoredMatch =
  recipient :: RecipientListItem
  score :: rat

text \<open>Lines 906-917: the score of a match whose detail page could not be fetched.\<close>

definition list_score :: "world \<Rightarrow> Customer \<Rightarrow> RecipientListItem \<Rightarrow> rat" where
  "list_score W customer match =
     (let score = 0;
          score = (if IdIl match = parseIntOrZero W (CityID customer)
                   then fadd score c03 else score);
          score = (if IdIlce match = parseIntOrZero W (DistrictID customer)
                   then fadd score c02 else score)
      in score)"

text \<open>Lines 926-941: the score of a match from its detail page.\<close>

definition detail_score :: "world \<Rightarrow> Customer \<Rightarrow> Customer \<Rightarrow> rat" where
  "detail_score W customer detail =
     (let score = 0;
          addressScore = calculateSimilarityScore W (Address detail) (Address customer);
          score = fadd score (fmul addressScore c05);
          score = (if CityID detail = CityID customer then fadd score c03 else score);
          score = (if DistrictID detail = DistrictID customer then fadd score c02 else score)
      in score)"

text \<open>Lines 902-947: one detail request for each match, in the order of the list.\<close>

fun score_matches ::
  "world \<Rightarrow> Client \<Rightarrow> Customer \<Rightarrow> RecipientListItem list \<Rightarrow> scoredMatch list
   \<Rightarrow> scoredMatch list \<times> Client" where
  "score_matches W c customer [] scoredMatches = (scoredMatches, c)"
| "score_matches W c customer (match # rest) scoredMatches =
     (case GetRecipientDetail W c (IdAlici match) of
        (Inl detailErr, c1) \<Rightarrow>
          score_matches W c1 customer rest
            (scoredMatches @ [\<lparr>recipient = match, score = list_score W customer match\<rparr>])
      | (Inr detail, c1) \<Rightarrow>
          score_matches W c1 customer rest
            (scoredMatches @ [\<lparr>recipient = match, score = detail_score W customer detail\<rparr>]))"

text \<open>Lines 951-956: the first of the highest scores wins.\<close>

fun best_of :: "scoredMatch \<Rightarrow> scoredMatch list \<Rightarrow> scoredMatch" where
  "best_of bestMatch [] = bestMatch"
| "best_of bestMatch (sm # rest) =
     best_of (if score sm > score bestMatch then sm else bestMatch) rest"

definition same_name :: "world \<Rightarrow> Customer \<Rightarrow> RecipientListItem \<Rightarrow> bool" where
  "same_name W customer r =
     (ToLower W (TrimSpace W (AliciAdi r)) = ToLower W (TrimSpace W (Name customer)))"

text \<open>Lines 867-961: the customer exists already; find it in the list.\<close>

definition find_existing :: "world \<Rightarrow> Client \<Rightarrow> Customer \<Rightarrow> (error + string) \<times> Client" where
  "find_existing W c customer =
     (case GetRecipientList W c 500 of
        (Inl listErr, c1) \<Rightarrow> (Inl (pre_list_failed @ listErr), c1)
      | (Inr recipientList, c1) \<Rightarrow>
          (let matches = filter (same_name W customer) (Data recipientList) in
           if length matches = 0 then (Inl (pre_not_in_list @ Name customer), c1)
           else if length matches = 1 then (Inr (Sprintf_d (IdAlici (matches ! 0))), c1)
           else
             (case score_matches W c1 customer matches [] of
                (scoredMatches, c2) \<Rightarrow>
                  if length scoredMatches > 0
                  then (Inr (Sprintf_d (IdAlici (recipient
                              (best_of (scoredMatches ! 0) (drop 1 scoredMatches))))), c2)
                  else (Inr (Sprintf_d (IdAlici (matches ! 0))), c2))))"

definition CreateCustomerOrGetExisting ::
  "world \<Rightarrow> Client \<Rightarrow> Customer \<Rightarrow> (error + string) \<times> Client" where
  "CreateCustomerOrGetExisting W c customer =
     (case CreateCustomer W c customer of
        (Inr customerID, c1) \<Rightarrow> (Inr customerID, c1)
      | (Inl err, c1) \<Rightarrow>
          if Contains err already_registered then find_existing W c1 customer
          else (Inl err, c1))"

section \<open>Provinces and districts\<close>

text \<open>
  \<^verbatim>\<open>locationData\<close> is decoded once from the embedded file
  \<^verbatim>\<open>assets/il-ilce-data.json\<close>; the functions below take it as their first argument
  after the world. The fields \<^verbatim>\<open>ID\<close> and \<^verbatim>\<open>Name\<close> of a city and of a district
  carry the record's name here.
\<close>

record City =
  City_ID :: string
  City_Name :: string

record District =
  District_ID :: int
  District_Name :: string

record IlIlceData =
  Cities :: "City list"
  Districts :: "string \<Rightarrow> District list option"

subsection \<open>normalizeString\<close>

text \<open>
  \<^verbatim>\<open>strings.NewReplacer(old1, new1, ...).Replace(s)\<close> walks \<open>s\<close> from the left; where
  an \<open>old\<close> string starts it writes the \<open>new\<close> one and steps over the \<open>old\<close> one, the
  earlier pair winning; elsewhere it copies one byte. (No \<open>old\<close> string of this
  program is empty.)
\<close>

fun lookup_pair :: "(string \<times> string) list \<Rightarrow> string \<Rightarrow> (string \<times> string) option" where
  "lookup_pair [] s = None"
| "lookup_pair ((old, new) # ps) s =
     (if prefix old s then Some (old, new) else lookup_pair ps s)"

function Replace :: "(string \<times> string) list \<Rightarrow> string \<Rightarrow> string" where
  "Replace ps [] = []"
| "Replace ps (c # s) =
     (case lookup_pair ps (c # s) of
        None \<Rightarrow> c # Replace ps s
      | Some (old, new) \<Rightarrow>
          if old = [] then c # Replace ps s
          else new @ Replace ps (drop (length old) (c # s)))"
  by pat_completeness auto
termination
  by (relation "measure (\<lambda>(ps, s). length s)") (auto simp: neq_Nil_conv)

definition turkish_pairs :: "(string \<times> string) list" where
  "turkish_pairs =
     [([CHR 0xC4, CHR 0x9F], ''g''),
      ([CHR 0xC3, CHR 0xBC], ''u''),
      ([CHR 0xC5, CHR 0x9F], ''s''),
      ([CHR 0xC4, CHR 0xB1], ''i''),
      ([CHR 0xC3, CHR 0xB6], ''o''),
      ([CHR 0xC3, CHR 0xA7], ''c''),
      ([CHR 0xC4, CHR 0xB0], ''i''),
      (''I'', ''i''),
      ([CHR 0xC4, CHR 0x9E], ''g''),
      ([CHR 0xC3, CHR 0x9C], ''u''),
      ([CHR 0xC5, CHR 0x9E], ''s''),
      ([CHR 0xC3, CHR 0x96], ''o''),
      ([CHR 0xC3, CHR 0x87], ''c'')]"

definition normalizeString :: "world \<Rightarrow> string \<Rightarrow> string" where
  "normalizeString W s = Replace turkish_pairs (TrimSpace W (ToLower W s))"

subsection \<open>GetDistrictID\<close>

text \<open>Lines 84-91 of the location file: the first loop over the districts of the province.\<close>

fun direct_match :: "world \<Rightarrow> bool \<Rightarrow> string \<Rightarrow> District list \<Rightarrow> int option" where
  "direct_match W isLookingForMerkez normalized [] = None"
| "direct_match W isLookingForMerkez normalized (district # rest) =
     (if Contains (normalizeString W (District_Name district)) ''merkez'' \<and> isLookingForMerkez
      then Some (District_ID district)
      else if normalizeString W (District_Name district) = normalized
      then Some (District_ID district)
      else direct_match W isLookingForMerkez normalized rest)"

text \<open>Lines 94-100: the name of the province, or the empty string.\<close>

fun city_name_of :: "City list \<Rightarrow> string \<Rightarrow> string" where
  "city_name_of [] cityID = []"
| "city_name_of (city # rest) cityID =
     (if City_ID city = cityID then City_Name city else city_name_of rest cityID)"

text \<open>Lines 108-114 and 117-122: the two loops that look for a central district.\<close>

fun merkez_of_city :: "world \<Rightarrow> string \<Rightarrow> District list \<Rightarrow> int option" where
  "merkez_of_city W cityNameNormalized [] = None"
| "merkez_of_city W cityNameNormalized (district # rest) =
     (let districtNormalized = normalizeString W (District_Name district) in
      if Contains districtNormalized ''merkez'' \<and> Contains districtNormalized cityNameNormalized
      then Some (District_ID district)
      else merkez_of_city W cityNameNormalized rest)"

fun any_merkez :: "world \<Rightarrow> District list \<Rightarrow> int option" where
  "any_merkez W [] = None"
| "any_merkez W (district # rest) =
     (let districtNormalized = normalizeString W (District_Name district) in
      if Contains districtNormalized ''merkez'' then Some (District_ID district)
      else any_merkez W rest)"

definition GetDistrictID :: "world \<Rightarrow> IlIlceData \<Rightarrow> string \<Rightarrow> string \<Rightarrow> int" where
  "GetDistrictID W locationData cityID districtName =
     (case Districts locationData cityID of
        None \<Rightarrow> - 1
      | Some districts \<Rightarrow>
          (let normalized = normalizeString W districtName;
               isLookingForMerkez = Contains districtName (normalizeString W ''Merkez'')
           in case direct_match W isLookingForMerkez normalized districts of
                Some found \<Rightarrow> found
              | None \<Rightarrow>
                  (let cityName = city_name_of (Cities locationData) cityID in
                   if cityName \<noteq> [] then
                     (let cityNameNormalized = normalizeString W cityName in
                      if normalized = cityNameNormalized then
                        (case merkez_of_city W cityNameNormalized districts of
                           Some found \<Rightarrow> found
                         | None \<Rightarrow>
                             (case any_merkez W districts of
                                Some found \<Rightarrow> found
                              | None \<Rightarrow> - 1))
                      else - 1)
                   else - 1)))"

section \<open>What a call leaves on the wire\<close>

text \<open>The requests a client issued between the states \<open>c\<close> and \<open>c'\<close>.\<close>

definition issued :: "Client \<Rightarrow> Client \<Rightarrow> request list" where
  "issued c c' = drop (length (sent c)) (sent c')"

definition token_request :: "Client \<Rightarrow> request" where
  "token_request c =
     \<lparr>http_method = ''GET'', url = BaseURL (config c) @ ''/Invoice/CreateQuick'', headers = [],
      form = []\<rparr>"

definition is_list_request :: "Client \<Rightarrow> request \<Rightarrow> bool" where
  "is_list_request c q = (url q = BaseURL (config c) @ ''/Recipient/GetRecipientList'')"

definition is_detail_request :: "Client \<Rightarrow> request \<Rightarrow> bool" where
  "is_detail_request c q =
     prefix (BaseURL (config c) @ ''/Recipient/Detail?RecipientId='') (url q)"

section \<open>The search order of GetDistrictID, as the specification words it\<close>

definition first_district :: "(District \<Rightarrow> bool) \<Rightarrow> District list \<Rightarrow> int option" where
  "first_district P districts = map_option District_ID (List.find P districts)"

text \<open>
  This definition follows the specification, not the source: for an input that contains
  \<^verbatim>\<open>merkez\<close> or is the province's name, first a district whose normalized name contains
  \<^verbatim>\<open>merkez\<close> and the province's normalized name, then any district whose normalized name
  contains \<^verbatim>\<open>merkez\<close>, and otherwise the district of the same normalized name; \<open>-1\<close>
  when nothing is found or the city is unknown. It is compared with
  \<^const>\<open>GetDistrictID\<close> below.
\<close>

definition GetDistrictID_as_specified ::
  "world \<Rightarrow> IlIlceData \<Rightarrow> string \<Rightarrow> string \<Rightarrow> int" where
  "GetDistrictID_as_specified W locationData cityID districtName =
     (case Districts locationData cityID of
        None \<Rightarrow> - 1
      | Some districts \<Rightarrow>
          (let normalized = normalizeString W districtName;
               province = normalizeString W (city_name_of (Cities locationData) cityID);
               exact = (case first_district
                               (\<lambda>d. normalizeString W (District_Name d) = normalized)
                               districts of
                          Some found \<Rightarrow> found | None \<Rightarrow> - 1)
           in if Contains districtName ''merkez'' \<or> normalized = province
              then (case first_district
                          (\<lambda>d. Contains (normalizeString W (District_Name d)) ''merkez''
                               \<and> Contains (normalizeString W (District_Name d)) province)
                          districts of
                      Some found \<Rightarrow> found
                    | None \<Rightarrow>
                        (case first_district
                                (\<lambda>d. Contains (normalizeString W (District_Name d)) ''merkez'')
                                districts of
                           Some found \<Rightarrow> found
                         | None \<Rightarrow> exact))
              else exact))"

section \<open>Sample worlds\<close>

text \<open>
  Concrete worlds, clients and customers at which the theorems below are instantiated.
  The sample portal answers by URL; its pages are short, and the sample library
  functions are given on the strings that occur.
\<close>

definition sample_config :: Config where
  "sample_config =
     \<lparr>BaseURL = ''https://portal'', CompanyID = ''7'', MeasureUnit = 67,
      CurrencyCode = ''TRY'', Timeout = 30\<rparr>"

definition new_client :: Client where
  "new_client = \<lparr>sent = [], config = sample_config, token = []\<rparr>"

definition token_page :: string where
  "token_page = ''name='' @ dq @ ''__RequestVerificationToken'' @ dq @ '' value='' @ dq
                @ ''T1'' @ dq"

definition duplicate_body :: string where
  "duplicate_body = ''{'' @ dq @ ''ErrorMessage'' @ dq @ '':'' @ dq @ ''Alici ''
                    @ already_registered @ dq @ ''}''"

definition created_body :: string where
  "created_body = ''{'' @ dq @ ''IdAlici'' @ dq @ '':42}''"

text \<open>What \<^verbatim>\<open>Sscanf\<close> stores for a short string of decimal digits.\<close>

definition scan_digits :: "string \<Rightarrow> int option" where
  "scan_digits s =
     (if s \<noteq> [] \<and> list_all (\<lambda>c. 48 \<le> (of_char c :: nat) \<and> (of_char c :: nat) \<le> 57) s
      then Some (foldl (\<lambda>n c. 10 * n + (int (of_char c) - 48)) 0 s)
      else None)"

definition item :: "int \<Rightarrow> string \<Rightarrow> int \<Rightarrow> int \<Rightarrow> RecipientListItem" where
  "item i n il ilce =
     \<lparr>IdAlici = i, AliciAdi = n, Vnktckn = ''11111111111'', WebSite = [], Telefon = [],
      FaturaGonderimSekli = 1, IdIl = il, IdIlce = ilce, IlceAdi = [], IlAdi = [],
      IdVergiDairesi = - 1, Fax = [], Email_item = [], SokakAdi = [], BinaNo = ''1'',
      PostaKodu = [], AliciTipi = 1, IdAliciTipi = 1, IdFirma = 7, IdAnaFirma = 7,
      State = 1, IdAliciKaynak = [], MusteriNo = [], IrsaliyeAlicisi = False,
      StateName = [], MaskingRecipientName = []\<rparr>"

definition sample_list :: "RecipientListItem list \<Rightarrow> RecipientListResponse" where
  "sample_list items =
     \<lparr>Draw = 1, RecordsTotal = int (length items), RecordsFiltered = int (length items),
      Data = items\<rparr>"

text \<open>
  The sample portal: the token page always renders; \<^verbatim>\<open>/Recipient/Create\<close> answers
  \<open>create_body\<close>; the list holds \<open>items\<close>; every other URL (the detail pages) is
  answered by \<open>detail\<close>.
\<close>

definition sample_world ::
  "string \<Rightarrow> RecipientListItem list \<Rightarrow> (string \<Rightarrow> http_result) \<Rightarrow> world" where
  "sample_world create_body items detail =
     \<lparr>respond = (\<lambda>history req.
         if url req = ''https://portal/Invoice/CreateQuick'' then Body token_page
         else if url req = ''https://portal/Recipient/Create'' then Body create_body
         else if url req = ''https://portal/Recipient/GetRecipientList'' then Body ''{}''
         else detail (url req)),
      NewRequest = (\<lambda>m u. None),
      FindStringSubmatch = (\<lambda>pattern s.
         if pattern = token_pattern \<and> s = token_page then [token_page, ''T1'']
         else if pattern = value_pattern ''SokakAdi'' \<and> s = ''street'' then [s, ''Moda Cad. 5'']
         else []),
      Unmarshal_object = (\<lambda>s.
         if s = duplicate_body
         then Inr [''ErrorMessage'' \<mapsto> JString (''Alici '' @ already_registered)]
         else if s = created_body then Inr [''IdAlici'' \<mapsto> JNumber 0x4045000000000000]
         else Inl ''unexpected end of JSON input''),
      Unmarshal_list = (\<lambda>s. Inr (sample_list items)),
      Sprintf_f0 = (\<lambda>x. if x = 0x4045000000000000 then ''42'' else ''0''),
      Sscanf_d = scan_digits,
      Map_ToLower = (\<lambda>s. s),
      TrimFunc_IsSpace = (\<lambda>s. s),
      TrimRightFunc_IsSpace = (\<lambda>s. s)\<rparr>"

definition unreachable :: "string \<Rightarrow> http_result" where
  "unreachable u = DoError ''dial tcp: connection refused''"

definition ahmet :: Customer where
  "ahmet =
     \<lparr>Name = ''Ahmet Yilmaz'', TaxNumber = ''11111111111'', Email = ''ahmet@example.com'',
      Phone = ''5551234567'', Address = ''Moda Cad. 5'', CityID = ''28'',
      CityName = ''Istanbul'', DistrictID = ''413'', PostalCode = ''34710'',
      BuildingNo = [], TaxOfficeID = [], CustomerType = 0, SendingType = 0\<rparr>"

definition offline_world :: world where
  "offline_world =
     (sample_world created_body [] unreachable)
       \<lparr>respond := (\<lambda>history req. DoError ''dial tcp: connection refused'')\<rparr>"

definition nameless :: Customer where
  "nameless = ahmet\<lparr>Name := []\<rparr>"

definition no_email :: Customer where
  "no_email = ahmet\<lparr>Email := []\<rparr>"

definition stale_client :: Client where
  "stale_client = new_client\<lparr>token := ''T0''\<rparr>"

definition online_world :: world where
  "online_world = sample_world created_body [] unreachable"

text \<open>A portal that knows the customer already, and lists \<open>items\<close>.\<close>

definition duplicate_world :: "RecipientListItem list \<Rightarrow> world" where
  "duplicate_world items = sample_world duplicate_body items unreachable"

definition duplicate_error :: error where
  "duplicate_error = pre_create_failed @ ''Alici '' @ already_registered"

definition one_ahmet :: "RecipientListItem list" where
  "one_ahmet = [item 5 ''Mehmet Demir'' 28 413, item 6 '' AHMET Yilmaz'' 6 100]"

definition no_ahmet :: "RecipientListItem list" where
  "no_ahmet = [item 5 ''Mehmet Demir'' 28 413, item 7 ''Ahmet Yilmaz Jr'' 28 413]"

definition two_ahmets :: "RecipientListItem list" where
  "two_ahmets =
     [item 2 ''ahmet yilmaz'' 6 100, item 5 ''Mehmet Demir'' 28 413,
      item 1 ''AHMET YILMAZ '' 28 413]"

text \<open>Two recipients with the customer's name; no detail page can be fetched.\<close>

definition two_candidates :: "RecipientListItem list" where
  "two_candidates = [item 1 ''Ahmet Yilmaz'' 28 413, item 2 ''Ahmet Yilmaz'' 6 100]"

text \<open>A portal whose detail pages render with the street only.\<close>

definition street_world :: world where
  "street_world = sample_world duplicate_body two_candidates (\<lambda>u. Body ''street'')"

definition no_district :: Customer where
  "no_district = ahmet\<lparr>DistrictID := []\<rparr>"

text \<open>
  A small province list for the examples: one province, three districts, two of them
  with \<^verbatim>\<open>merkez\<close> in their names.
\<close>

definition sample_locations :: IlIlceData where
  "sample_locations =
     \<lparr>Cities = [\<lparr>City_ID = ''20'', City_Name = ''Denizli''\<rparr>],
      Districts =
        [''20'' \<mapsto> [\<lparr>District_ID = 301, District_Name = ''Merkezefendi''\<rparr>,
                    \<lparr>District_ID = 302, District_Name = ''Pamukkale''\<rparr>,
                    \<lparr>District_ID = 303, District_Name = ''Denizli Merkez''\<rparr>]]\<rparr>"

section \<open>Properties\<close>

subsection \<open>Strings\<close>

lemma ToLower_Nil [simp]: "ToLower W [] = []"
  by (simp add: ToLower_def)

lemma normalized_empty [simp]: "ToLower W (TrimSpace W []) = []"
  by simp

subsection \<open>Similarity against the empty string\<close>

text \<open>
  C9 (as amended). If what is left of \<open>a\<close> after trimming and lower-casing is not
  empty, the similarity of \<open>a\<close> and the empty string is \<open>0.0\<close>, in either order of the
  arguments.
\<close>

theorem similarity_with_empty:
  assumes "ToLower W (TrimSpace W a) \<noteq> []"
  shows "calculateSimilarityScore W a [] = 0 \<and> calculateSimilarityScore W [] a = 0"
proof -
  have "[] \<noteq> ToLower W (TrimSpace W a)"
    using assms by simp
  with assms show ?thesis
    by (simp add: calculateSimilarityScore_def Let_def)
qed

theorem similarity_with_empty_witness:
  "ToLower offline_world (TrimSpace offline_world ''Moda Cad. 5'') \<noteq> []
   \<and> calculateSimilarityScore offline_world ''Moda Cad. 5'' [] = 0
   \<and> calculateSimilarityScore offline_world [] ''Moda Cad. 5'' = 0"
proof -
  have h: "ToLower offline_world (TrimSpace offline_world ''Moda Cad. 5'') \<noteq> []"
    by code_simp
  from similarity_with_empty [OF h] h show ?thesis
    by blast
qed

text \<open>
  C9 as stated fails: a single blank is a non-empty string, it is trimmed to the empty
  string, and two equal strings have similarity \<open>1.0\<close>.
\<close>

theorem blank_is_similar_to_empty:
  "'' '' \<noteq> ([] :: string) \<and> calculateSimilarityScore offline_world '' '' [] = 1
   \<and> calculateSimilarityScore offline_world [] '' '' = 1"
  by (simp add: calculateSimilarityScore_def isASCII_def asciiSpace_def)

subsection \<open>CreateCustomer: validation, defaults and the token\<close>

lemma validation_error_cases:
  "validation_error customer \<noteq> None \<longleftrightarrow>
     Name customer = [] \<or> TaxNumber customer = []
     \<or> (SendingType customer = 1 \<and> Email customer = [])"
  by (simp add: validation_error_def)

text \<open>
  C7 (as amended). For a customer with a required field missing, \<^verbatim>\<open>CreateCustomer\<close>
  issues exactly one request, the GET of the page \<^verbatim>\<open>/Invoice/CreateQuick\<close> that refreshes
  the token. If that request or the search for the token fails, the token error is
  returned and the stored token is unchanged; otherwise the validation error is returned,
  the stored token is the refreshed one, and nothing is posted.
\<close>

theorem validation_follows_token_refresh:
  assumes "Name customer = [] \<or> TaxNumber customer = []
           \<or> (SendingType customer = 1 \<and> Email customer = [])"
  shows "\<exists>verr. validation_error customer = Some verr \<and>
           CreateCustomer W c customer =
             (case respond W (sent c) (token_request c) of
                DoError err \<Rightarrow>
                  (Inl (pre_token_update @ err), c\<lparr>sent := sent c @ [token_request c]\<rparr>)
              | ReadError err \<Rightarrow>
                  (Inl (pre_token_update @ err), c\<lparr>sent := sent c @ [token_request c]\<rparr>)
              | Body body \<Rightarrow>
                  (if length (FindStringSubmatch W token_pattern body) < 2
                   then (Inl (pre_token_update @ err_token_not_found),
                         c\<lparr>sent := sent c @ [token_request c]\<rparr>)
                   else (Inl verr,
                         c\<lparr>sent := sent c @ [token_request c],
                           token := FindStringSubmatch W token_pattern body ! 1\<rparr>)))"
proof -
  from assms obtain verr where v: "validation_error customer = Some verr"
    using validation_error_cases [of customer] by auto
  have "CreateCustomer W c customer =
          (case updateToken W c ''/Invoice/CreateQuick'' of
             (Some err, c1) \<Rightarrow> (Inl (pre_token_update @ err), c1)
           | (None, c1) \<Rightarrow> (Inl verr, c1))"
    by (simp add: CreateCustomer_def v split: prod.split option.split)
  then show ?thesis
    using v
    by (simp add: updateToken_def Do_def token_request_def Let_def
        split: http_result.split)
qed

theorem validation_follows_token_refresh_witness:
  "Name nameless = []
   \<and> CreateCustomer online_world stale_client nameless =
       (Inl err_name_required,
        stale_client\<lparr>sent := sent stale_client @ [token_request stale_client],
                     token := ''T1''\<rparr>)"
proof -
  have h: "Name nameless = [] \<or> TaxNumber nameless = []
           \<or> (SendingType nameless = 1 \<and> Email nameless = [])"
    by code_simp
  have v: "validation_error nameless = Some err_name_required"
    by code_simp
  have r: "respond online_world (sent stale_client) (token_request stale_client)
           = Body token_page"
    by code_simp
  have m: "FindStringSubmatch online_world token_pattern token_page = [token_page, ''T1'']"
    by code_simp
  have n: "Name nameless = []"
    by code_simp
  from validation_follows_token_refresh [OF h, of online_world stale_client]
  obtain verr where
    "validation_error nameless = Some verr"
    "CreateCustomer online_world stale_client nameless =
       (case respond online_world (sent stale_client) (token_request stale_client) of
          DoError err \<Rightarrow>
            (Inl (pre_token_update @ err),
             stale_client\<lparr>sent := sent stale_client @ [token_request stale_client]\<rparr>)
        | ReadError err \<Rightarrow>
            (Inl (pre_token_update @ err),
             stale_client\<lparr>sent := sent stale_client @ [token_request stale_client]\<rparr>)
        | Body body \<Rightarrow>
            (if length (FindStringSubmatch online_world token_pattern body) < 2
             then (Inl (pre_token_update @ err_token_not_found),
                   stale_client\<lparr>sent := sent stale_client @ [token_request stale_client]\<rparr>)
             else (Inl verr,
                   stale_client\<lparr>sent := sent stale_client @ [token_request stale_client],
                     token := FindStringSubmatch online_world token_pattern body ! 1\<rparr>)))"
    by blast
  then have "CreateCustomer online_world stale_client nameless =
       (Inl err_name_required,
        stale_client\<lparr>sent := sent stale_client @ [token_request stale_client],
                     token := ''T1''\<rparr>)"
    by (simp add: r m v)
  with n show ?thesis
    by blast
qed

text \<open>
  C7 as stated fails. A customer without a name, a client whose stored token is \<open>T0\<close>:
  the validation error is returned after the GET of the token page has been issued, and
  the stored token is then \<open>T1\<close>. When the portal cannot be reached, the same customer
  gets the token error, not the validation error.
\<close>

theorem validation_is_not_first:
  "Name nameless = []
   \<and> fst (CreateCustomer online_world stale_client nameless) = Inl err_name_required
   \<and> issued stale_client (snd (CreateCustomer online_world stale_client nameless))
       = [token_request stale_client]
   \<and> token stale_client = ''T0''
   \<and> token (snd (CreateCustomer online_world stale_client nameless)) = ''T1''
   \<and> fst (CreateCustomer offline_world stale_client nameless)
       = Inl (pre_token_update @ ''dial tcp: connection refused'')"
  by code_simp

text \<open>
  C6 fails on the code. The e-mail check reads the sending type before the default is
  applied: a customer with the sending type unset and no e-mail address passes the
  checks, the sending type then defaults to electronic, and the customer is posted with
  \<^verbatim>\<open>FaturaGonderimSekli=1\<close> and an empty \<^verbatim>\<open>Email\<close>.
\<close>

theorem unset_sending_type_skips_email_check:
  "Name no_email \<noteq> [] \<and> TaxNumber no_email \<noteq> [] \<and> Email no_email = []
   \<and> SendingType no_email = 0
   \<and> validation_error no_email = None
   \<and> SendingType (apply_defaults no_email) = 1
   \<and> fst (CreateCustomer online_world new_client no_email) = Inr ''42''
   \<and> map (\<lambda>q. (url q, map_of (form q) ''FaturaGonderimSekli'', map_of (form q) ''Email''))
        (sent (snd (CreateCustomer online_world new_client no_email)))
      = [(''https://portal/Invoice/CreateQuick'', None, None),
         (''https://portal/Recipient/Create'', Some ''1'', Some [])]"
  by code_simp

subsection \<open>The requests of each operation\<close>

lemma issued_append: "sent c' = sent c @ rs \<Longrightarrow> issued c c' = rs"
  by (simp add: issued_def)

lemma updateToken_state:
  assumes "updateToken W c path = (e, c1)"
  shows "config c1 = config c
         \<and> sent c1 = sent c @ [\<lparr>http_method = ''GET'', url = BaseURL (config c) @ path,
                                  headers = [], form = []\<rparr>]"
  using assms
  by (auto simp: updateToken_def Do_def Let_def split: http_result.splits if_splits)

lemma CreateCustomer_state:
  assumes "CreateCustomer W c customer = (r, c1)"
  shows "config c1 = config c
         \<and> (\<exists>rs. sent c1 = sent c @ rs
                \<and> (\<forall>q\<in>set rs. url q = BaseURL (config c) @ ''/Invoice/CreateQuick''
                                \<or> url q = BaseURL (config c) @ ''/Recipient/Create''))"
proof (cases "updateToken W c ''/Invoice/CreateQuick''")
  case (Pair e c0)
  note u = updateToken_state [OF Pair]
  show ?thesis
  proof (cases e)
    case (Some err)
    with Pair assms have "c1 = c0"
      by (simp add: CreateCustomer_def)
    with u show ?thesis
      by simp
  next
    case None
    show ?thesis
    proof (cases "\<exists>body. c1 = c0\<lparr>sent := sent c0 @ [\<lparr>http_method = ''POST'',
                    url = BaseURL (config c0) @ ''/Recipient/Create'',
                    headers = form_headers, form = body\<rparr>]\<rparr>")
      case True
      with u show ?thesis
        by auto
    next
      case False
      with Pair None assms have "c1 = c0"
        by (auto simp: CreateCustomer_def Do_def Let_def
            split: option.splits http_result.splits)
      with u show ?thesis
        by simp
    qed
  qed
qed

lemma GetRecipientList_state:
  assumes "GetRecipientList W c limit = (r, c1)"
  shows "config c1 = config c \<and> token c1 = token c
         \<and> (sent c1 = sent c
             \<or> (\<exists>q. sent c1 = sent c @ [q]
                    \<and> url q = BaseURL (config c) @ ''/Recipient/GetRecipientList''))"
  using assms
  by (auto simp: GetRecipientList_def Do_def Let_def
      split: option.splits http_result.splits sum.splits)

lemma GetRecipientList_answered:
  assumes "GetRecipientList W c limit = (Inr recipientList, c1)"
  shows "\<exists>q. sent c1 = sent c @ [q]
              \<and> url q = BaseURL (config c) @ ''/Recipient/GetRecipientList''"
  using assms
  by (auto simp: GetRecipientList_def Do_def Let_def
      split: option.splits http_result.splits sum.splits)

lemma create_urls_are_not_search_urls:
  assumes "url q = BaseURL (config c) @ ''/Invoice/CreateQuick''
           \<or> url q = BaseURL (config c) @ ''/Recipient/Create''"
  shows "\<not> is_list_request c q \<and> \<not> is_detail_request c q"
  using assms by (auto simp: is_list_request_def is_detail_request_def)

lemma list_url_is_not_detail_url:
  assumes "url q = BaseURL (config c) @ ''/Recipient/GetRecipientList''"
  shows "\<not> is_detail_request c q"
  using assms by (auto simp: is_detail_request_def)

lemma CreateCustomer_issues_no_search:
  assumes "CreateCustomer W c customer = (r, c1)"
  shows "\<forall>q\<in>set (issued c c1). \<not> is_list_request c q \<and> \<not> is_detail_request c q"
proof -
  from CreateCustomer_state [OF assms] obtain rs where
    rs: "sent c1 = sent c @ rs"
        "\<forall>q\<in>set rs. url q = BaseURL (config c) @ ''/Invoice/CreateQuick''
                     \<or> url q = BaseURL (config c) @ ''/Recipient/Create''"
    by blast
  from rs(1) have "issued c c1 = rs"
    by (rule issued_append)
  with rs(2) show ?thesis
    using create_urls_are_not_search_urls by blast
qed

subsection \<open>The trigger of the search\<close>

text \<open>
  C1. Whatever \<^verbatim>\<open>CreateCustomer\<close> returns, \<^verbatim>\<open>CreateCustomerOrGetExisting\<close> returns an id
  as it is; it runs the search of the list exactly when the error text contains
  \<^verbatim>\<open>zaten kayitlidir\<close> (in the source's spelling); it returns every other error as it is,
  in the state \<^verbatim>\<open>CreateCustomer\<close> left, and that state shows no list request and no
  detail request. So a list or detail request on the wire means the error was the
  duplicate error.
\<close>

theorem search_only_after_duplicate_error:
  assumes "CreateCustomer W c customer = (r, c1)"
  shows "CreateCustomerOrGetExisting W c customer =
           (case r of
              Inr customerID \<Rightarrow> (Inr customerID, c1)
            | Inl err \<Rightarrow>
                if Contains err already_registered then find_existing W c1 customer
                else (Inl err, c1))
         \<and> (\<forall>q\<in>set (issued c c1). \<not> is_list_request c q \<and> \<not> is_detail_request c q)
         \<and> ((\<exists>q\<in>set (issued c (snd (CreateCustomerOrGetExisting W c customer))).
                is_list_request c q \<or> is_detail_request c q)
              \<longrightarrow> (\<exists>err. r = Inl err \<and> Contains err already_registered))"
proof -
  have eq: "CreateCustomerOrGetExisting W c customer =
           (case r of
              Inr customerID \<Rightarrow> (Inr customerID, c1)
            | Inl err \<Rightarrow>
                if Contains err already_registered then find_existing W c1 customer
                else (Inl err, c1))"
    using assms by (simp add: CreateCustomerOrGetExisting_def split: sum.split)
  have quiet: "\<forall>q\<in>set (issued c c1). \<not> is_list_request c q \<and> \<not> is_detail_request c q"
    using assms by (rule CreateCustomer_issues_no_search)
  have "\<exists>err. r = Inl err \<and> Contains err already_registered"
    if "\<exists>q\<in>set (issued c (snd (CreateCustomerOrGetExisting W c customer))).
          is_list_request c q \<or> is_detail_request c q"
  proof (rule ccontr)
    assume "\<not> (\<exists>err. r = Inl err \<and> Contains err already_registered)"
    with eq have "snd (CreateCustomerOrGetExisting W c customer) = c1"
      by (cases r) auto
    with that quiet show False
      by auto
  qed
  with eq quiet show ?thesis
    by blast
qed

theorem search_only_after_duplicate_error_witness:
  "fst (CreateCustomer (duplicate_world one_ahmet) new_client ahmet) = Inl duplicate_error
   \<and> Contains duplicate_error already_registered
   \<and> CreateCustomerOrGetExisting (duplicate_world one_ahmet) new_client ahmet =
       find_existing (duplicate_world one_ahmet)
         (snd (CreateCustomer (duplicate_world one_ahmet) new_client ahmet)) ahmet
   \<and> fst (CreateCustomer offline_world new_client ahmet)
       = Inl (pre_token_update @ ''dial tcp: connection refused'')
   \<and> \<not> Contains (pre_token_update @ ''dial tcp: connection refused'') already_registered
   \<and> CreateCustomerOrGetExisting offline_world new_client ahmet =
       CreateCustomer offline_world new_client ahmet"
proof -
  let ?W = "duplicate_world one_ahmet"
  let ?e = "pre_token_update @ ''dial tcp: connection refused''"
  have f: "fst (CreateCustomer ?W new_client ahmet) = Inl duplicate_error"
    by code_simp
  have k: "Contains duplicate_error already_registered"
    by code_simp
  have p: "CreateCustomer ?W new_client ahmet
           = (Inl duplicate_error, snd (CreateCustomer ?W new_client ahmet))"
    using f by (simp add: prod_eq_iff)
  have g: "fst (CreateCustomer offline_world new_client ahmet) = Inl ?e"
    by code_simp
  have n: "\<not> Contains ?e already_registered"
    by code_simp
  have q: "CreateCustomer offline_world new_client ahmet
           = (Inl ?e, snd (CreateCustomer offline_world new_client ahmet))"
    using g by (simp add: prod_eq_iff)
  from search_only_after_duplicate_error [OF p] k
  have 1: "CreateCustomerOrGetExisting ?W new_client ahmet =
             find_existing ?W (snd (CreateCustomer ?W new_client ahmet)) ahmet"
    by simp
  from search_only_after_duplicate_error [OF q] n
  have "CreateCustomerOrGetExisting offline_world new_client ahmet =
          (Inl ?e, snd (CreateCustomer offline_world new_client ahmet))"
    by simp
  with q have 2: "CreateCustomerOrGetExisting offline_world new_client ahmet =
                    CreateCustomer offline_world new_client ahmet"
    by simp
  from f k 1 g n 2 show ?thesis
    by blast
qed

subsection \<open>One match, no match\<close>

lemma issued_trans:
  assumes "sent c1 = sent c @ rs" and "sent c2 = sent c1 @ rs'"
  shows "issued c c2 = rs @ rs'"
  using assms by (simp add: issued_def)

lemma find_existing_after_list:
  assumes "GetRecipientList W c1 500 = (Inr recipientList, c2)"
  shows "find_existing W c1 customer =
           (let matches = filter (same_name W customer) (Data recipientList) in
            if length matches = 0 then (Inl (pre_not_in_list @ Name customer), c2)
            else if length matches = 1 then (Inr (Sprintf_d (IdAlici (matches ! 0))), c2)
            else
              (case score_matches W c2 customer matches [] of
                 (scoredMatches, c3) \<Rightarrow>
                   if length scoredMatches > 0
                   then (Inr (Sprintf_d (IdAlici (recipient
                               (best_of (scoredMatches ! 0) (drop 1 scoredMatches))))), c3)
                   else (Inr (Sprintf_d (IdAlici (matches ! 0))), c3)))"
  using assms by (simp add: find_existing_def)

lemma duplicate_runs_find_existing:
  assumes "CreateCustomer W c customer = (Inl err, c1)"
    and "Contains err already_registered"
  shows "CreateCustomerOrGetExisting W c customer = find_existing W c1 customer"
  using assms by (simp add: CreateCustomerOrGetExisting_def)

text \<open>
  C4. After the duplicate error, when the filter by normalized name (trimmed, then
  lower-cased) leaves exactly one recipient of the list, its id is returned, in the
  state the list request left; between the call and its return no request for a detail
  page is issued.
\<close>

theorem single_match_needs_no_detail:
  assumes "CreateCustomer W c customer = (Inl err, c1)"
    and "Contains err already_registered"
    and "GetRecipientList W c1 500 = (Inr recipientList, c2)"
    and "filter (same_name W customer) (Data recipientList) = [m]"
  shows "CreateCustomerOrGetExisting W c customer = (Inr (Sprintf_d (IdAlici m)), c2)
         \<and> (\<forall>q\<in>set (issued c c2). \<not> is_detail_request c q)"
proof -
  have "CreateCustomerOrGetExisting W c customer = find_existing W c1 customer"
    using assms(1,2) by (rule duplicate_runs_find_existing)
  also have "\<dots> = (Inr (Sprintf_d (IdAlici m)), c2)"
    by (simp add: find_existing_after_list [OF assms(3)] assms(4))
  finally have result: "CreateCustomerOrGetExisting W c customer
                        = (Inr (Sprintf_d (IdAlici m)), c2)" .
  from CreateCustomer_state [OF assms(1)] obtain rs where
    rs: "config c1 = config c" "sent c1 = sent c @ rs"
        "\<forall>q\<in>set rs. url q = BaseURL (config c) @ ''/Invoice/CreateQuick''
                     \<or> url q = BaseURL (config c) @ ''/Recipient/Create''"
    by blast
  from GetRecipientList_answered [OF assms(3)] rs(1) obtain l where
    l: "sent c2 = sent c1 @ [l]" "url l = BaseURL (config c) @ ''/Recipient/GetRecipientList''"
    by auto
  from rs(2) l(1) have "issued c c2 = rs @ [l]"
    by (rule issued_trans)
  moreover have "\<forall>q\<in>set rs. \<not> is_detail_request c q"
    using rs(3) create_urls_are_not_search_urls by blast
  moreover have "\<not> is_detail_request c l"
    using l(2) by (rule list_url_is_not_detail_url)
  ultimately have "\<forall>q\<in>set (issued c c2). \<not> is_detail_request c q"
    by auto
  with result show ?thesis
    by blast
qed

theorem single_match_needs_no_detail_witness:
  "fst (CreateCustomer (duplicate_world one_ahmet) new_client ahmet) = Inl duplicate_error
   \<and> Contains duplicate_error already_registered
   \<and> filter (same_name (duplicate_world one_ahmet) ahmet) (Data (sample_list one_ahmet))
       = [item 6 '' AHMET Yilmaz'' 6 100]
   \<and> fst (CreateCustomerOrGetExisting (duplicate_world one_ahmet) new_client ahmet)
       = Inr ''6''
   \<and> list_all (\<lambda>q. \<not> is_detail_request new_client q)
        (sent (snd (CreateCustomerOrGetExisting (duplicate_world one_ahmet) new_client ahmet)))"
proof -
  let ?W = "duplicate_world one_ahmet"
  let ?c1 = "snd (CreateCustomer ?W new_client ahmet)"
  let ?c2 = "snd (GetRecipientList ?W ?c1 500)"
  let ?m = "item 6 '' AHMET Yilmaz'' 6 100"
  have f: "fst (CreateCustomer ?W new_client ahmet) = Inl duplicate_error"
    by code_simp
  have k: "Contains duplicate_error already_registered"
    by code_simp
  have p: "CreateCustomer ?W new_client ahmet = (Inl duplicate_error, ?c1)"
    using f by (simp add: prod_eq_iff)
  have "fst (GetRecipientList ?W ?c1 500) = Inr (sample_list one_ahmet)"
    by code_simp
  then have l: "GetRecipientList ?W ?c1 500 = (Inr (sample_list one_ahmet), ?c2)"
    by (simp add: prod_eq_iff)
  have m: "filter (same_name ?W ahmet) (Data (sample_list one_ahmet)) = [?m]"
    by code_simp
  have s: "Sprintf_d (IdAlici ?m) = ''6''"
    by code_simp
  have e: "sent new_client = []"
    by code_simp
  from single_match_needs_no_detail [OF p k l m]
  have r: "CreateCustomerOrGetExisting ?W new_client ahmet = (Inr (Sprintf_d (IdAlici ?m)), ?c2)"
    and d: "\<forall>q\<in>set (issued new_client ?c2). \<not> is_detail_request new_client q"
    by blast+
  from r s have 1: "fst (CreateCustomerOrGetExisting ?W new_client ahmet) = Inr ''6''"
    by simp
  from r have "snd (CreateCustomerOrGetExisting ?W new_client ahmet) = ?c2"
    by simp
  with d e have 2: "list_all (\<lambda>q. \<not> is_detail_request new_client q)
        (sent (snd (CreateCustomerOrGetExisting ?W new_client ahmet)))"
    by (simp add: issued_def list_all_iff)
  from f k m 1 2 show ?thesis
    by blast
qed

text \<open>
  C5. After the duplicate error, when no recipient of the list has the customer's
  normalized name, the result is the error \<^verbatim>\<open>musteri zaten kayitli ancak listede
  bulunamadi\<close> (in the source's spelling) followed by the customer's name, and no id.
\<close>

theorem no_match_is_an_error:
  assumes "CreateCustomer W c customer = (Inl err, c1)"
    and "Contains err already_registered"
    and "GetRecipientList W c1 500 = (Inr recipientList, c2)"
    and "filter (same_name W customer) (Data recipientList) = []"
  shows "CreateCustomerOrGetExisting W c customer
         = (Inl (pre_not_in_list @ Name customer), c2)"
proof -
  have "CreateCustomerOrGetExisting W c customer = find_existing W c1 customer"
    using assms(1,2) by (rule duplicate_runs_find_existing)
  also have "\<dots> = (Inl (pre_not_in_list @ Name customer), c2)"
    by (simp add: find_existing_after_list [OF assms(3)] assms(4))
  finally show ?thesis .
qed

theorem no_match_is_an_error_witness:
  "fst (CreateCustomer (duplicate_world no_ahmet) new_client ahmet) = Inl duplicate_error
   \<and> Contains duplicate_error already_registered
   \<and> filter (same_name (duplicate_world no_ahmet) ahmet) (Data (sample_list no_ahmet)) = []
   \<and> fst (CreateCustomerOrGetExisting (duplicate_world no_ahmet) new_client ahmet)
       = Inl (pre_not_in_list @ ''Ahmet Yilmaz'')"
proof -
  let ?W = "duplicate_world no_ahmet"
  let ?c1 = "snd (CreateCustomer ?W new_client ahmet)"
  let ?c2 = "snd (GetRecipientList ?W ?c1 500)"
  have f: "fst (CreateCustomer ?W new_client ahmet) = Inl duplicate_error"
    by code_simp
  have k: "Contains duplicate_error already_registered"
    by code_simp
  have p: "CreateCustomer ?W new_client ahmet = (Inl duplicate_error, ?c1)"
    using f by (simp add: prod_eq_iff)
  have "fst (GetRecipientList ?W ?c1 500) = Inr (sample_list no_ahmet)"
    by code_simp
  then have l: "GetRecipientList ?W ?c1 500 = (Inr (sample_list no_ahmet), ?c2)"
    by (simp add: prod_eq_iff)
  have m: "filter (same_name ?W ahmet) (Data (sample_list no_ahmet)) = []"
    by code_simp
  have n: "Name ahmet = ''Ahmet Yilmaz''"
    by code_simp
  from no_match_is_an_error [OF p k l m] n
  have "fst (CreateCustomerOrGetExisting ?W new_client ahmet)
        = Inl (pre_not_in_list @ ''Ahmet Yilmaz'')"
    by simp
  with f k m show ?thesis
    by blast
qed

subsection \<open>Ranking several matches\<close>

lemma score_matches_recipients:
  "score_matches W c customer ms acc = (sms, c') \<Longrightarrow>
   map recipient sms = map recipient acc @ ms"
proof (induction ms arbitrary: c acc)
  case Nil
  then show ?case by simp
next
  case (Cons m ms)
  obtain r c1 where d: "GetRecipientDetail W c (IdAlici m) = (r, c1)"
    by (cases "GetRecipientDetail W c (IdAlici m)")
  show ?case
  proof (cases r)
    case (Inl detailErr)
    with d Cons.prems have
      "score_matches W c1 customer ms
         (acc @ [\<lparr>recipient = m, score = list_score W customer m\<rparr>]) = (sms, c')"
      by simp
    from Cons.IH [OF this] show ?thesis by simp
  next
    case (Inr detail)
    with d Cons.prems have
      "score_matches W c1 customer ms
         (acc @ [\<lparr>recipient = m, score = detail_score W customer detail\<rparr>]) = (sms, c')"
      by simp
    from Cons.IH [OF this] show ?thesis by simp
  qed
qed

lemma best_of_mem: "best_of b sms \<in> set (b # sms)"
  by (induction sms arbitrary: b) auto

lemma best_of_ge_start: "score b \<le> score (best_of b sms)"
proof (induction sms arbitrary: b)
  case Nil
  show ?case by simp
next
  case (Cons sm sms)
  show ?case
  proof (cases "score sm > score b")
    case True
    have "score b \<le> score sm" using True by simp
    also have "\<dots> \<le> score (best_of sm sms)" by (rule Cons.IH)
    finally show ?thesis using True by simp
  next
    case False
    then show ?thesis using Cons.IH [of b] by simp
  qed
qed

lemma best_of_ge: "sm \<in> set (b # sms) \<Longrightarrow> score sm \<le> score (best_of b sms)"
proof (induction sms arbitrary: b)
  case Nil
  then show ?case by simp
next
  case (Cons x sms)
  let ?b = "if score x > score b then x else b"
  have step: "best_of b (x # sms) = best_of ?b sms"
    by simp
  from Cons.prems consider "sm = b" | "sm = x" | "sm \<in> set sms"
    by auto
  then show ?case
  proof cases
    case 1
    then show ?thesis by (rule ssubst) (rule best_of_ge_start)
  next
    case 2
    have "score x \<le> score ?b" by simp
    also have "\<dots> \<le> score (best_of ?b sms)" by (rule best_of_ge_start)
    finally show ?thesis using 2 step by simp
  next
    case 3
    then have "sm \<in> set (?b # sms)" by simp
    from Cons.IH [OF this] show ?thesis using step by simp
  qed
qed

text \<open>
  C2. The result of \<^verbatim>\<open>CreateCustomerOrGetExisting\<close> is a sum: an error and no id, or
  one id and no error. After the duplicate error, when more than one recipient of the
  list has the customer's normalized name, the scored list has one entry for each of
  them, in their order, whether its detail page was fetched or not, and the id returned
  is the id of an entry of that list whose score no entry exceeds.
\<close>

theorem best_scored_match_is_returned:
  assumes "CreateCustomer W c customer = (Inl err, c1)"
    and "Contains err already_registered"
    and "GetRecipientList W c1 500 = (Inr recipientList, c2)"
    and "length (filter (same_name W customer) (Data recipientList)) > 1"
    and "score_matches W c2 customer (filter (same_name W customer) (Data recipientList)) []
         = (scoredMatches, c3)"
  shows "map recipient scoredMatches = filter (same_name W customer) (Data recipientList)
         \<and> (\<exists>best\<in>set scoredMatches.
               (\<forall>sm\<in>set scoredMatches. score sm \<le> score best)
               \<and> CreateCustomerOrGetExisting W c customer
                   = (Inr (Sprintf_d (IdAlici (recipient best))), c3))"
proof -
  let ?matches = "filter (same_name W customer) (Data recipientList)"
  have recipients: "map recipient scoredMatches = ?matches"
    using score_matches_recipients [OF assms(5)] by simp
  then have "length scoredMatches = length ?matches"
    by (metis length_map)
  with assms(4) obtain x xs where sms: "scoredMatches = x # xs"
    by (cases scoredMatches) auto
  let ?best = "best_of x xs"
  have "CreateCustomerOrGetExisting W c customer = find_existing W c1 customer"
    using assms(1,2) by (rule duplicate_runs_find_existing)
  also have "\<dots> = (Inr (Sprintf_d (IdAlici (recipient ?best))), c3)"
  proof -
    from assms(4) have "?matches \<noteq> []"
      by auto
    moreover from assms(4) have "length ?matches \<noteq> Suc 0"
      by arith
    ultimately show ?thesis
      by (simp add: find_existing_after_list [OF assms(3)] Let_def assms(5) sms)
  qed
  finally have result: "CreateCustomerOrGetExisting W c customer
                        = (Inr (Sprintf_d (IdAlici (recipient ?best))), c3)" .
  have "?best \<in> set scoredMatches"
    unfolding sms by (rule best_of_mem)
  moreover have "\<forall>sm\<in>set scoredMatches. score sm \<le> score ?best"
    unfolding sms using best_of_ge by blast
  ultimately show ?thesis
    using recipients result by blast
qed

theorem best_scored_match_is_returned_witness:
  "fst (CreateCustomer (duplicate_world two_ahmets) new_client ahmet) = Inl duplicate_error
   \<and> Contains duplicate_error already_registered
   \<and> filter (same_name (duplicate_world two_ahmets) ahmet) (Data (sample_list two_ahmets))
       = [item 2 ''ahmet yilmaz'' 6 100, item 1 ''AHMET YILMAZ '' 28 413]
   \<and> fst (score_matches (duplicate_world two_ahmets)
            (snd (GetRecipientList (duplicate_world two_ahmets)
                   (snd (CreateCustomer (duplicate_world two_ahmets) new_client ahmet)) 500))
            ahmet [item 2 ''ahmet yilmaz'' 6 100, item 1 ''AHMET YILMAZ '' 28 413] [])
       = [\<lparr>recipient = item 2 ''ahmet yilmaz'' 6 100, score = 0\<rparr>,
          \<lparr>recipient = item 1 ''AHMET YILMAZ '' 28 413, score = 1 / 2\<rparr>]
   \<and> fst (CreateCustomerOrGetExisting (duplicate_world two_ahmets) new_client ahmet)
       = Inr ''1''"
proof -
  let ?W = "duplicate_world two_ahmets"
  let ?c1 = "snd (CreateCustomer ?W new_client ahmet)"
  let ?c2 = "snd (GetRecipientList ?W ?c1 500)"
  let ?ms = "[item 2 ''ahmet yilmaz'' 6 100, item 1 ''AHMET YILMAZ '' 28 413]"
  let ?c3 = "snd (score_matches ?W ?c2 ahmet ?ms [])"
  let ?a = "\<lparr>recipient = item 2 ''ahmet yilmaz'' 6 100, score = 0\<rparr>"
  let ?b = "\<lparr>recipient = item 1 ''AHMET YILMAZ '' 28 413, score = 1 / 2\<rparr>"
  have f: "fst (CreateCustomer ?W new_client ahmet) = Inl duplicate_error"
    by code_simp
  have k: "Contains duplicate_error already_registered"
    by code_simp
  have p: "CreateCustomer ?W new_client ahmet = (Inl duplicate_error, ?c1)"
    using f by (simp add: prod_eq_iff)
  have "fst (GetRecipientList ?W ?c1 500) = Inr (sample_list two_ahmets)"
    by code_simp
  then have l: "GetRecipientList ?W ?c1 500 = (Inr (sample_list two_ahmets), ?c2)"
    by (simp add: prod_eq_iff)
  have m: "filter (same_name ?W ahmet) (Data (sample_list two_ahmets)) = ?ms"
    by code_simp
  have n: "length (filter (same_name ?W ahmet) (Data (sample_list two_ahmets))) > 1"
    unfolding m by simp
  have s: "fst (score_matches ?W ?c2 ahmet ?ms []) = [?a, ?b]"
    by code_simp
  then have t: "score_matches ?W ?c2 ahmet
                  (filter (same_name ?W ahmet) (Data (sample_list two_ahmets))) []
                = ([?a, ?b], ?c3)"
    unfolding m by (simp add: prod_eq_iff)
  have i: "Sprintf_d (IdAlici (item 1 ''AHMET YILMAZ '' 28 413)) = ''1''"
    by code_simp
  from best_scored_match_is_returned [OF p k l n t]
  obtain best where
    b: "best \<in> set [?a, ?b]" "\<forall>sm\<in>set [?a, ?b]. score sm \<le> score best"
       "CreateCustomerOrGetExisting ?W new_client ahmet
        = (Inr (Sprintf_d (IdAlici (recipient best))), ?c3)"
    by blast
  from b(2) have "score ?b \<le> score best"
    by simp
  with b(1) have "best = ?b"
    by auto
  with b(3) i have "fst (CreateCustomerOrGetExisting ?W new_client ahmet) = Inr ''1''"
    by simp
  with f k m s show ?thesis
    by blast
qed

subsection \<open>Rounding to float64\<close>

lemma round_half_even_of_int [simp]: "round_half_even (of_int n) = n"
  by (simp add: round_half_even_def)

lemma round_half_even_ge:
  assumes "of_int a \<le> x"
  shows "a \<le> round_half_even x"
proof -
  from assms have "a \<le> \<lfloor>x\<rfloor>"
    by (simp add: le_floor_iff)
  then show ?thesis
    by (simp add: round_half_even_def Let_def)
qed

lemma round_half_even_le:
  assumes "x \<le> of_int b"
  shows "round_half_even x \<le> b"
proof (cases "x - of_int \<lfloor>x\<rfloor> < 1 / 2")
  case True
  moreover from assms have "\<lfloor>x\<rfloor> \<le> b"
    by (simp add: floor_le_iff)
  ultimately show ?thesis
    by (simp add: round_half_even_def Let_def)
next
  case False
  then have "of_int \<lfloor>x\<rfloor> < x"
    by linarith
  with assms have "of_int \<lfloor>x\<rfloor> < (of_int b :: rat)"
    by linarith
  then have "\<lfloor>x\<rfloor> < b"
    by simp
  then show ?thesis
    by (simp add: round_half_even_def Let_def)
qed

lemma pow2_pos [simp]: "0 < (2::rat) powi k"
  by simp

lemma pow2_less_iff: "(2::rat) powi a < 2 powi b \<longleftrightarrow> a < b"
proof
  assume l: "(2::rat) powi a < 2 powi b"
  show "a < b"
  proof (rule ccontr)
    assume "\<not> a < b"
    then have "b \<le> a" by simp
    then have "(2::rat) powi b \<le> 2 powi a"
      by (intro power_int_increasing) simp_all
    with l show False by simp
  qed
next
  assume "a < b"
  then show "(2::rat) powi a < 2 powi b"
    by (intro power_int_strict_increasing) simp_all
qed

lemma pow2_of_int_bitlen:
  assumes "0 < p"
  shows "(2::rat) powi (bitlen p - 1) \<le> of_int p \<and> (of_int p :: rat) < 2 powi (bitlen p)"
proof -
  from bitlen_bounds [OF assms]
  have b: "2 ^ nat (bitlen p - 1) \<le> p" "p < 2 ^ nat (bitlen p)"
    by simp_all
  from assms have ge: "1 \<le> bitlen p"
    by (simp add: bitlen_alt_def)
  from b(1) have "(of_int (2 ^ nat (bitlen p - 1)) :: rat) \<le> of_int p"
    by (simp only: of_int_le_iff)
  moreover from b(2) have "(of_int p :: rat) < of_int (2 ^ nat (bitlen p))"
    by (simp only: of_int_less_iff)
  ultimately show ?thesis
    using ge by (simp add: power_int_nonneg_exp)
qed

lemma ilog2_bounds:
  assumes "0 < x"
  shows "2 powi (ilog2 x) \<le> x \<and> x < 2 powi (ilog2 x + 1)"
proof -
  obtain p q where pq: "quotient_of x = (p, q)"
    by (cases "quotient_of x")
  then have q: "0 < q" and x: "x = of_int p / of_int q"
    by (simp_all add: quotient_of_denom_pos quotient_of_div)
  from assms x q have p: "0 < p"
    by (simp add: zero_less_divide_iff)
  let ?P = "of_int p :: rat" and ?Q = "of_int q :: rat"
  let ?k = "bitlen p - bitlen q"
  note bp = pow2_of_int_bitlen [OF p] and bq = pow2_of_int_bitlen [OF q]
  have Q: "0 < ?Q" using q by simp
  have upper: "x < 2 powi (?k + 1)"
  proof -
    have "x * ?Q = ?P" using x Q by simp
    also have "\<dots> < 2 powi (bitlen p)" using bp by simp
    also have "\<dots> = 2 powi (?k + 1) * 2 powi (bitlen q - 1)"
      by (simp flip: power_int_add)
    also have "\<dots> \<le> 2 powi (?k + 1) * ?Q"
      using bq by (intro mult_left_mono) simp_all
    finally show ?thesis using Q by simp
  qed
  have lower: "2 powi (?k - 1) \<le> x"
  proof -
    have "2 powi (?k - 1) * ?Q \<le> 2 powi (?k - 1) * 2 powi (bitlen q)"
      using bq by (intro mult_left_mono) simp_all
    also have "\<dots> = 2 powi (bitlen p - 1)"
      by (simp flip: power_int_add)
    also have "\<dots> \<le> ?P" using bp by simp
    also have "\<dots> = x * ?Q" using x Q by simp
    finally show ?thesis using Q by simp
  qed
  show ?thesis
  proof (cases "2 powi ?k \<le> x")
    case True
    then have "ilog2 x = ?k"
      by (simp add: ilog2_def pq)
    with True upper show ?thesis by simp
  next
    case False
    then have "ilog2 x = ?k - 1"
      by (simp add: ilog2_def pq)
    with False lower show ?thesis by simp
  qed
qed

lemma ilog2_less:
  assumes "0 < x" and "x < 2 powi k"
  shows "ilog2 x < k"
proof -
  from ilog2_bounds [OF assms(1)] assms(2) have "(2::rat) powi (ilog2 x) < 2 powi k"
    by linarith
  then show ?thesis
    by (simp add: pow2_less_iff)
qed

lemma ilog2_pow2 [simp]: "ilog2 (2 powi k) = k"
proof -
  have "(0::rat) < 2 powi k" by simp
  from ilog2_bounds [OF this]
  have le: "(2::rat) powi (ilog2 (2 powi k)) \<le> 2 powi k"
    and lt: "(2::rat) powi k < 2 powi (ilog2 (2 powi k) + 1)"
    by simp_all
  from le have "\<not> (2::rat) powi k < 2 powi (ilog2 (2 powi k))"
    by simp
  then have "\<not> k < ilog2 (2 powi k)"
    by (simp add: pow2_less_iff)
  moreover from lt have "k < ilog2 (2 powi k) + 1"
    by (simp add: pow2_less_iff)
  ultimately show ?thesis by simp
qed

lemma pow2_53: "(2::rat) ^ 53 * 2 powi (e - 52) = 2 powi (e + 1)"
proof -
  have "(2::rat) ^ 53 * 2 powi (e - 52) = 2 powi 53 * 2 powi (e - 52)"
    by simp
  also have "\<dots> = 2 powi (53 + (e - 52))"
    by (subst power_int_add) simp_all
  also have "53 + (e - 52) = e + 1"
    by simp
  finally show ?thesis .
qed

lemma ulp_pos [simp]: "0 < ulp x"
  by (simp add: ulp_def)

text \<open>
  A multiple of the gap of its own binade is a \<^verbatim>\<open>float64\<close>: rounding leaves it as it
  is. Every rounded number is such a multiple, so rounding twice is rounding once.
\<close>

lemma fl64_multiple:
  assumes "y = of_int m * ulp y"
  shows "fl64 y = y"
proof (cases "y = 0")
  case True
  then show ?thesis by (simp add: fl64_def)
next
  case False
  from assms have "y / ulp y = of_int m"
    by (metis nonzero_mult_div_cancel_right less_irrefl ulp_pos)
  with False assms show ?thesis
    by (simp add: fl64_def)
qed

lemma fl64_is_multiple: "\<exists>m. fl64 x = of_int m * ulp (fl64 x)"
proof (cases "x = 0")
  case True
  then have "fl64 x = of_int 0 * ulp (fl64 x)"
    by (simp add: fl64_def)
  then show ?thesis ..
next
  case False
  define e where "e = max (ilog2 \<bar>x\<bar>) (- 1022)"
  define n where "n = round_half_even (x / ulp x)"
  have u: "ulp x = 2 powi (e - 52)"
    by (simp add: ulp_def e_def)
  have y: "fl64 x = of_int n * 2 powi (e - 52)"
    using False by (simp add: fl64_def n_def u)
  have e_ge: "- 1022 \<le> e"
    by (simp add: e_def)
  have "\<bar>x\<bar> < 2 powi (ilog2 \<bar>x\<bar> + 1)"
    using ilog2_bounds [of "\<bar>x\<bar>"] False by simp
  also have "\<dots> \<le> 2 powi (e + 1)"
    by (intro power_int_increasing) (simp_all add: e_def)
  also have "\<dots> = 2 ^ 53 * 2 powi (e - 52)"
    by (rule pow2_53 [symmetric])
  finally have "\<bar>x\<bar> / 2 powi (e - 52) < 2 ^ 53"
    by (simp add: pos_divide_less_eq)
  then have "\<bar>x / ulp x\<bar> < 2 ^ 53"
    by (simp add: u)
  then have "- (2 ^ 53) \<le> x / ulp x" and "x / ulp x \<le> 2 ^ 53"
    by linarith+
  then have lo: "of_int (- (2 ^ 53)) \<le> x / ulp x" and hi: "x / ulp x \<le> of_int (2 ^ 53)"
    by simp_all
  have n_bounds: "- (2 ^ 53) \<le> n" "n \<le> 2 ^ 53"
    unfolding n_def
    using round_half_even_ge [OF lo] round_half_even_le [OF hi] by simp_all
  consider "n = 0" | "\<bar>n\<bar> = 2 ^ 53" | "n \<noteq> 0" "\<bar>n\<bar> \<noteq> 2 ^ 53"
    by blast
  then show ?thesis
  proof cases
    case 1
    then have "fl64 x = of_int 0 * ulp (fl64 x)"
      by (simp add: y)
    then show ?thesis ..
  next
    case 2
    note True = 2
    then have "\<bar>fl64 x\<bar> = 2 ^ 53 * 2 powi (e - 52)"
      by (simp add: y abs_mult)
    also have "\<dots> = 2 powi (e + 1)"
      by (rule pow2_53)
    finally have "ilog2 \<bar>fl64 x\<bar> = e + 1"
      by simp
    with e_ge have "ulp (fl64 x) = 2 powi (e - 52 + 1)"
      by (simp add: ulp_def)
    also have "\<dots> = 2 powi (e - 52) * 2"
      by (subst power_int_add) simp_all
    finally have uy: "ulp (fl64 x) = 2 powi (e - 52) * 2" .
    from True have "n = 2 ^ 53 \<or> n = - (2 ^ 53)"
      by linarith
    then have "n = 2 * (n div 2)"
      by (elim disjE) simp_all
    then have half: "(of_int n :: rat) = 2 * of_int (n div 2)"
      by (metis of_int_mult of_int_numeral)
    have "of_int (n div 2) * ulp (fl64 x) = of_int (n div 2) * (2 powi (e - 52) * 2)"
      by (simp only: uy)
    also have "\<dots> = (2 * of_int (n div 2)) * 2 powi (e - 52)"
      by simp
    also have "\<dots> = of_int n * 2 powi (e - 52)"
      by (simp only: half)
    also have "\<dots> = fl64 x"
      by (simp only: y)
    finally have "fl64 x = of_int (n div 2) * ulp (fl64 x)"
      by simp
    then show ?thesis ..
  next
    case 3
    note n0 = 3(1)
    from 3(2) n_bounds have n_small: "\<bar>n\<bar> < 2 ^ 53"
      by simp
    define ey where "ey = max (ilog2 \<bar>fl64 x\<bar>) (- 1022)"
    have uy: "ulp (fl64 x) = 2 powi (ey - 52)"
      by (simp add: ulp_def ey_def)
    have "ey \<le> e"
    proof -
      have "(of_int \<bar>n\<bar> :: rat) < of_int (2 ^ 53)"
        using n_small by (simp only: of_int_less_iff)
      then have "\<bar>fl64 x\<bar> < 2 ^ 53 * 2 powi (e - 52)"
        by (simp add: y abs_mult)
      also have "\<dots> = 2 powi (e + 1)"
        by (rule pow2_53)
      finally have lt: "\<bar>fl64 x\<bar> < 2 powi (e + 1)" .
      from n0 have "0 < \<bar>fl64 x\<bar>"
        by (simp add: y)
      from ilog2_less [OF this lt] e_ge show ?thesis
        by (simp add: ey_def)
    qed
    then have "(2::rat) powi (e - 52) = 2 powi (ey - 52) * 2 powi (e - ey)"
      by (subst power_int_add [symmetric]) simp_all
    also have "(2::rat) powi (e - ey) = of_int (2 ^ nat (e - ey))"
      using \<open>ey \<le> e\<close> by (simp add: power_int_nonneg_exp)
    finally have split: "(2::rat) powi (e - 52) = 2 powi (ey - 52) * of_int (2 ^ nat (e - ey))" .
    have "of_int (n * 2 ^ nat (e - ey)) * ulp (fl64 x)
          = of_int (n * 2 ^ nat (e - ey)) * 2 powi (ey - 52)"
      by (simp only: uy)
    also have "\<dots> = of_int n * (2 powi (ey - 52) * of_int (2 ^ nat (e - ey)))"
      by simp
    also have "\<dots> = of_int n * 2 powi (e - 52)"
      by (simp only: split)
    also have "\<dots> = fl64 x"
      by (simp only: y)
    finally have "fl64 x = of_int (n * 2 ^ nat (e - ey)) * ulp (fl64 x)"
      by simp
    then show ?thesis ..
  qed
qed

lemma fl64_idem [simp]: "fl64 (fl64 x) = fl64 x"
  using fl64_is_multiple [of x] fl64_multiple by blast

lemma fadd_0_left [simp]: "fadd 0 (fl64 x) = fl64 x"
  by (simp add: fadd_def)

lemma fadd_0_right [simp]: "fadd (fl64 x) 0 = fl64 x"
  by (simp add: fadd_def)

subsection \<open>The composite score\<close>

lemma constants_float64: "c05 = 1 / 2 \<and> c03 = 5404319552844595 / 2 ^ 54
                          \<and> c02 = 3602879701896397 / 2 ^ 54"
  by code_simp

lemma c03_rounded [simp]: "fl64 c03 = c03"
  by (simp add: c03_def)

lemma c02_rounded [simp]: "fl64 c02 = c02"
  by (simp add: c02_def)

lemma fl64_0 [simp]: "fl64 0 = 0"
  by (simp add: fl64_def)

lemma list_score_formula:
  "list_score W customer match =
     fadd (if IdIl match = parseIntOrZero W (CityID customer) then c03 else 0)
          (if IdIlce match = parseIntOrZero W (DistrictID customer) then c02 else 0)"
  by (simp add: list_score_def fadd_def)

lemma detail_score_formula:
  "detail_score W customer detail =
     fadd (fadd (fmul (calculateSimilarityScore W (Address detail) (Address customer)) c05)
                (if CityID detail = CityID customer then c03 else 0))
          (if DistrictID detail = DistrictID customer then c02 else 0)"
  by (simp add: detail_score_def fadd_def fmul_def)

lemma list_score_values:
  "fadd (if a then c03 else 0) (if b then c02 else 0) \<le> 1 / 2
   \<and> fadd c03 c02 = 1 / 2 \<and> fadd 0 0 = 0"
proof -
  have "fadd c03 c02 = 1 / 2" "fadd c03 0 \<le> 1 / 2" "fadd 0 c02 \<le> 1 / 2" "fadd 0 0 = 0"
    by code_simp+
  then show ?thesis
    by (cases a; cases b) simp_all
qed

text \<open>
  C3. In the loop over several matches, the entry appended for a match has the score
  \<open>sim * 0.5 + (0.3 if the cities agree) + (0.2 if the districts agree)\<close> computed from the
  detail page when its fetch succeeds, and \<open>(0.3 if the cities agree) + (0.2 if the
  districts agree)\<close> computed from the list item when the fetch fails; each \<open>+\<close> and \<open>*\<close>
  is the \<^verbatim>\<open>float64\<close> operation. The second score is at most \<open>0.5\<close>. For the
  candidates 1 (city 28, district 413) and 2 (city 6, district 100), a customer with
  city \<open>28\<close> and district \<open>413\<close> and no detail page to fetch, the scores are \<open>0.5\<close>
  and \<open>0.0\<close> and the id returned is \<open>1\<close>.
\<close>

theorem composite_score_of_each_match:
  "score_matches W c customer (match # rest) scoredMatches =
     (case GetRecipientDetail W c (IdAlici match) of
        (Inr detail, c1) \<Rightarrow>
          score_matches W c1 customer rest
            (scoredMatches @
             [\<lparr>recipient = match,
               score =
                 fadd (fadd (fmul (calculateSimilarityScore W (Address detail)
                                     (Address customer)) c05)
                            (if CityID detail = CityID customer then c03 else 0))
                      (if DistrictID detail = DistrictID customer then c02 else 0)\<rparr>])
      | (Inl detailErr, c1) \<Rightarrow>
          score_matches W c1 customer rest
            (scoredMatches @
             [\<lparr>recipient = match,
               score =
                 fadd (if IdIl match = parseIntOrZero W (CityID customer) then c03 else 0)
                      (if IdIlce match = parseIntOrZero W (DistrictID customer)
                       then c02 else 0)\<rparr>]))
   \<and> fadd (if a then c03 else 0) (if b then c02 else 0) \<le> 1 / 2
   \<and> c05 = 1 / 2 \<and> c03 = 5404319552844595 / 2 ^ 54 \<and> c02 = 3602879701896397 / 2 ^ 54
   \<and> map score (fst (score_matches (duplicate_world two_candidates) new_client ahmet
                        two_candidates [])) = [1 / 2, 0]
   \<and> fst (CreateCustomerOrGetExisting (duplicate_world two_candidates) new_client ahmet)
       = Inr ''1''"
proof -
  have step: "score_matches W c customer (match # rest) scoredMatches =
     (case GetRecipientDetail W c (IdAlici match) of
        (Inr detail, c1) \<Rightarrow>
          score_matches W c1 customer rest
            (scoredMatches @
             [\<lparr>recipient = match,
               score =
                 fadd (fadd (fmul (calculateSimilarityScore W (Address detail)
                                     (Address customer)) c05)
                            (if CityID detail = CityID customer then c03 else 0))
                      (if DistrictID detail = DistrictID customer then c02 else 0)\<rparr>])
      | (Inl detailErr, c1) \<Rightarrow>
          score_matches W c1 customer rest
            (scoredMatches @
             [\<lparr>recipient = match,
               score =
                 fadd (if IdIl match = parseIntOrZero W (CityID customer) then c03 else 0)
                      (if IdIlce match = parseIntOrZero W (DistrictID customer)
                       then c02 else 0)\<rparr>]))"
    by (simp only: score_matches.simps list_score_formula detail_score_formula
        split: prod.split sum.split)
  have bound: "fadd (if a then c03 else 0) (if b then c02 else 0) \<le> 1 / 2"
    using list_score_values [of a b] by blast
  have example:
    "map score (fst (score_matches (duplicate_world two_candidates) new_client ahmet
                       two_candidates [])) = [1 / 2, 0]"
    "fst (CreateCustomerOrGetExisting (duplicate_world two_candidates) new_client ahmet)
       = Inr ''1''"
    by code_simp+
  from step bound constants_float64 example show ?thesis
    by blast
qed

theorem composite_score_of_each_match_witness:
  "fst (GetRecipientDetail (duplicate_world two_candidates) new_client 1)
     = Inl (pre_detail_do @ ''dial tcp: connection refused'')
   \<and> fst (score_matches (duplicate_world two_candidates) new_client ahmet
            [item 1 ''Ahmet Yilmaz'' 28 413, item 2 ''Ahmet Yilmaz'' 6 100] [])
       = [\<lparr>recipient = item 1 ''Ahmet Yilmaz'' 28 413, score = 1 / 2\<rparr>,
          \<lparr>recipient = item 2 ''Ahmet Yilmaz'' 6 100, score = 0\<rparr>]"
proof -
  let ?W = "duplicate_world two_candidates"
  let ?m1 = "item 1 ''Ahmet Yilmaz'' 28 413"
  let ?m2 = "item 2 ''Ahmet Yilmaz'' 6 100"
  let ?E = "pre_detail_do @ ''dial tcp: connection refused''"
  let ?c1 = "snd (GetRecipientDetail ?W new_client (IdAlici ?m1))"
  let ?c2 = "snd (GetRecipientDetail ?W ?c1 (IdAlici ?m2))"
  have f0: "fst (GetRecipientDetail ?W new_client 1) = Inl ?E"
    by code_simp
  have f1: "fst (GetRecipientDetail ?W new_client (IdAlici ?m1)) = Inl ?E"
    by code_simp
  have f2: "fst (GetRecipientDetail ?W ?c1 (IdAlici ?m2)) = Inl ?E"
    by code_simp
  have conds:
    "(IdIl ?m1 = parseIntOrZero ?W (CityID ahmet)) = True"
    "(IdIlce ?m1 = parseIntOrZero ?W (DistrictID ahmet)) = True"
    "(IdIl ?m2 = parseIntOrZero ?W (CityID ahmet)) = False"
    "(IdIlce ?m2 = parseIntOrZero ?W (DistrictID ahmet)) = False"
    by code_simp+
  have v: "fadd c03 c02 = 1 / 2" "fadd 0 0 = 0"
    by code_simp+
  note step = composite_score_of_each_match [THEN conjunct1]
  from step [of ?W new_client ahmet ?m1 "[?m2]" "[]"]
  have "score_matches ?W new_client ahmet [?m1, ?m2] []
        = score_matches ?W ?c1 ahmet [?m2] [\<lparr>recipient = ?m1, score = 1 / 2\<rparr>]"
    by (simp only: case_prod_beta f1 sum.case conds if_True if_False v append_Nil)
  also from step [of ?W ?c1 ahmet ?m2 "[]" "[\<lparr>recipient = ?m1, score = 1 / 2\<rparr>]"]
  have "score_matches ?W ?c1 ahmet [?m2] [\<lparr>recipient = ?m1, score = 1 / 2\<rparr>]
        = score_matches ?W ?c2 ahmet []
            [\<lparr>recipient = ?m1, score = 1 / 2\<rparr>, \<lparr>recipient = ?m2, score = 0\<rparr>]"
    by (simp only: case_prod_beta f2 sum.case conds if_True if_False v append.simps)
  also have "\<dots> = ([\<lparr>recipient = ?m1, score = 1 / 2\<rparr>, \<lparr>recipient = ?m2, score = 0\<rparr>], ?c2)"
    by (simp only: score_matches.simps)
  finally have "fst (score_matches ?W new_client ahmet [?m1, ?m2] [])
                = [\<lparr>recipient = ?m1, score = 1 / 2\<rparr>, \<lparr>recipient = ?m2, score = 0\<rparr>]"
    by (simp only: fst_conv)
  with f0 show ?thesis
    by blast
qed

subsection \<open>The district of a detail page\<close>

lemma scrape_detail_district [simp]: "DistrictID (scrape_detail W htmlStr) = []"
  by (simp add: scrape_detail_def zero_Customer_def Let_def)

text \<open>
  C10. A \<^verbatim>\<open>Customer\<close> returned by \<^verbatim>\<open>GetRecipientDetail\<close> has the empty \<open>DistrictID\<close>.
  So the score computed from a detail page is the address and city part alone when the
  customer's \<open>DistrictID\<close> is not empty, and that part plus \<open>0.2\<close> when it is empty.
\<close>

theorem detail_page_has_no_district:
  assumes "GetRecipientDetail W c recipientID = (Inr detail, c1)"
  shows "DistrictID detail = []
         \<and> detail_score W customer detail =
             (if DistrictID customer = []
              then fadd (fadd (fmul (calculateSimilarityScore W (Address detail)
                                       (Address customer)) c05)
                              (if CityID detail = CityID customer then c03 else 0)) c02
              else fadd (fmul (calculateSimilarityScore W (Address detail)
                                 (Address customer)) c05)
                        (if CityID detail = CityID customer then c03 else 0))"
proof -
  from assms obtain body where "detail = scrape_detail W body"
    by (auto simp: GetRecipientDetail_def Do_def Let_def
        split: option.splits http_result.splits)
  then have d: "DistrictID detail = []"
    by simp
  have "fadd (fadd x y) 0 = fadd x y" for x y
    by (simp add: fadd_def)
  with d show ?thesis
    by (auto simp: detail_score_formula)
qed

theorem detail_page_has_no_district_witness:
  "fst (GetRecipientDetail street_world new_client 1)
     = Inr (zero_Customer\<lparr>Address := ''Moda Cad. 5''\<rparr>)
   \<and> DistrictID (zero_Customer\<lparr>Address := ''Moda Cad. 5''\<rparr>) = []
   \<and> DistrictID ahmet = ''413''
   \<and> detail_score street_world ahmet (zero_Customer\<lparr>Address := ''Moda Cad. 5''\<rparr>) = 1 / 2
   \<and> DistrictID no_district = []
   \<and> detail_score street_world no_district (zero_Customer\<lparr>Address := ''Moda Cad. 5''\<rparr>)
       = 3152519739159347 / 2 ^ 52"
proof -
  let ?d = "zero_Customer\<lparr>Address := ''Moda Cad. 5''\<rparr>"
  let ?c1 = "snd (GetRecipientDetail street_world new_client 1)"
  have f: "fst (GetRecipientDetail street_world new_client 1) = Inr ?d"
    by code_simp
  then have p: "GetRecipientDetail street_world new_client 1 = (Inr ?d, ?c1)"
    by (simp add: prod_eq_iff)
  have a: "DistrictID ahmet = ''413''" and n: "DistrictID no_district = []"
    by code_simp+
  have x: "(DistrictID ahmet = []) = False"
    by code_simp
  have v: "fadd (fmul (calculateSimilarityScore street_world (Address ?d) (Address ahmet)) c05)
             (if CityID ?d = CityID ahmet then c03 else 0) = 1 / 2"
    "fadd (fadd (fmul (calculateSimilarityScore street_world (Address ?d)
                         (Address no_district)) c05)
                (if CityID ?d = CityID no_district then c03 else 0)) c02
     = 3152519739159347 / 2 ^ 52"
    by code_simp+
  from detail_page_has_no_district [OF p, of ahmet]
  have 1: "DistrictID ?d = []" and 2: "detail_score street_world ahmet ?d = 1 / 2"
    by (simp_all only: x if_False v)
  from detail_page_has_no_district [OF p, of no_district]
  have 3: "detail_score street_world no_district ?d = 3152519739159347 / 2 ^ 52"
    by (simp only: n if_True v simp_thms)
  from f 1 a 2 n 3 show ?thesis
    by blast
qed

subsection \<open>The search order of GetDistrictID\<close>

lemma normalizeString_Merkez: "normalizeString W ''Merkez'' = ''merkez''"
  by code_simp

lemma direct_match_first:
  "direct_match W isLookingForMerkez normalized districts =
     first_district
       (\<lambda>d. Contains (normalizeString W (District_Name d)) ''merkez'' \<and> isLookingForMerkez
            \<or> normalizeString W (District_Name d) = normalized)
       districts"
  by (induction districts) (auto simp: first_district_def)

lemma merkez_of_city_first:
  "merkez_of_city W cityNameNormalized districts =
     first_district
       (\<lambda>d. Contains (normalizeString W (District_Name d)) ''merkez''
            \<and> Contains (normalizeString W (District_Name d)) cityNameNormalized)
       districts"
  by (induction districts) (auto simp: first_district_def Let_def)

lemma any_merkez_first:
  "any_merkez W districts =
     first_district (\<lambda>d. Contains (normalizeString W (District_Name d)) ''merkez'') districts"
  by (induction districts) (auto simp: first_district_def Let_def)

text \<open>
  C8 (as amended). For an unknown city id the result is \<open>-1\<close>. Otherwise one pass over the
  province's districts, in the order of the list, returns the first district whose
  normalized name equals the normalized input or, when the input contains \<^verbatim>\<open>merkez\<close>,
  contains \<^verbatim>\<open>merkez\<close>. Only when that pass finds nothing and the normalized input is the
  normalized name of the province are the central districts searched: first one whose
  normalized name contains \<^verbatim>\<open>merkez\<close> and the province's normalized name, then any whose
  normalized name contains \<^verbatim>\<open>merkez\<close>. In every other case the result is \<open>-1\<close>. (Inputs
  that contain \<^verbatim>\<open>merkez\<close> only before or only after normalization are left out.)
\<close>

theorem GetDistrictID_search_order:
  assumes "Contains districtName ''merkez''
           = Contains (normalizeString W districtName) ''merkez''"
  shows "GetDistrictID W locationData cityID districtName =
     (case Districts locationData cityID of
        None \<Rightarrow> - 1
      | Some districts \<Rightarrow>
          (let normalized = normalizeString W districtName;
               cityName = city_name_of (Cities locationData) cityID
           in case first_district
                     (\<lambda>d. Contains (normalizeString W (District_Name d)) ''merkez''
                            \<and> Contains normalized ''merkez''
                          \<or> normalizeString W (District_Name d) = normalized)
                     districts of
                Some found \<Rightarrow> found
              | None \<Rightarrow>
                  if cityName \<noteq> [] \<and> normalized = normalizeString W cityName
                  then (case first_district
                              (\<lambda>d. Contains (normalizeString W (District_Name d)) ''merkez''
                                   \<and> Contains (normalizeString W (District_Name d))
                                       (normalizeString W cityName))
                              districts of
                          Some found \<Rightarrow> found
                        | None \<Rightarrow>
                            (case first_district
                                    (\<lambda>d. Contains (normalizeString W (District_Name d))
                                           ''merkez'')
                                    districts of
                               Some found \<Rightarrow> found
                             | None \<Rightarrow> - 1))
                  else - 1))"
  using assms
  by (simp add: GetDistrictID_def normalizeString_Merkez direct_match_first
      merkez_of_city_first any_merkez_first Let_def
      split: option.split)

theorem GetDistrictID_search_order_witness:
  "Contains ''denizli'' ''merkez''
     = Contains (normalizeString online_world ''denizli'') ''merkez''
   \<and> GetDistrictID online_world sample_locations ''20'' ''denizli'' = 303
   \<and> Contains ''pamukkale'' ''merkez''
       = Contains (normalizeString online_world ''pamukkale'') ''merkez''
   \<and> GetDistrictID online_world sample_locations ''20'' ''pamukkale'' = 302"
proof -
  let ?W = online_world
  have h: "Contains ''denizli'' ''merkez'' = Contains (normalizeString ?W ''denizli'') ''merkez''"
    by code_simp
  have r: "(case Districts sample_locations ''20'' of
        None \<Rightarrow> - 1
      | Some districts \<Rightarrow>
          (let normalized = normalizeString ?W ''denizli'';
               cityName = city_name_of (Cities sample_locations) ''20''
           in case first_district
                     (\<lambda>d. Contains (normalizeString ?W (District_Name d)) ''merkez''
                            \<and> Contains normalized ''merkez''
                          \<or> normalizeString ?W (District_Name d) = normalized)
                     districts of
                Some found \<Rightarrow> found
              | None \<Rightarrow>
                  if cityName \<noteq> [] \<and> normalized = normalizeString ?W cityName
                  then (case first_district
                              (\<lambda>d. Contains (normalizeString ?W (District_Name d)) ''merkez''
                                   \<and> Contains (normalizeString ?W (District_Name d))
                                       (normalizeString ?W cityName))
                              districts of
                          Some found \<Rightarrow> found
                        | None \<Rightarrow>
                            (case first_district
                                    (\<lambda>d. Contains (normalizeString ?W (District_Name d))
                                           ''merkez'')
                                    districts of
                               Some found \<Rightarrow> found
                             | None \<Rightarrow> - 1))
                  else - 1)) = (303 :: int)"
    by code_simp
  have h': "Contains ''pamukkale'' ''merkez''
            = Contains (normalizeString ?W ''pamukkale'') ''merkez''"
    by code_simp
  have r': "(case Districts sample_locations ''20'' of
        None \<Rightarrow> - 1
      | Some districts \<Rightarrow>
          (let normalized = normalizeString ?W ''pamukkale'';
               cityName = city_name_of (Cities sample_locations) ''20''
           in case first_district
                     (\<lambda>d. Contains (normalizeString ?W (District_Name d)) ''merkez''
                            \<and> Contains normalized ''merkez''
                          \<or> normalizeString ?W (District_Name d) = normalized)
                     districts of
                Some found \<Rightarrow> found
              | None \<Rightarrow>
                  if cityName \<noteq> [] \<and> normalized = normalizeString ?W cityName
                  then (case first_district
                              (\<lambda>d. Contains (normalizeString ?W (District_Name d)) ''merkez''
                                   \<and> Contains (normalizeString ?W (District_Name d))
                                       (normalizeString ?W cityName))
                              districts of
                          Some found \<Rightarrow> found
                        | None \<Rightarrow>
                            (case first_district
                                    (\<lambda>d. Contains (normalizeString ?W (District_Name d))
                                           ''merkez'')
                                    districts of
                               Some found \<Rightarrow> found
                             | None \<Rightarrow> - 1))
                  else - 1)) = (302 :: int)"
    by code_simp
  from GetDistrictID_search_order [OF h, of sample_locations "''20''"] r
  have 1: "GetDistrictID ?W sample_locations ''20'' ''denizli'' = 303"
    by (rule trans)
  from GetDistrictID_search_order [OF h', of sample_locations "''20''"] r'
  have 2: "GetDistrictID ?W sample_locations ''20'' ''pamukkale'' = 302"
    by (rule trans)
  from h 1 h' 2 show ?thesis
    by blast
qed

text \<open>
  C8 as stated fails. In the sample province the input \<^verbatim>\<open>merkez\<close> finds the first
  district with \<^verbatim>\<open>merkez\<close> in its name, 301; the order of the specification prefers
  the district that also carries the province's name, 303.
\<close>

theorem first_merkez_wins:
  "GetDistrictID online_world sample_locations ''20'' ''merkez'' = 301
   \<and> GetDistrictID_as_specified online_world sample_locations ''20'' ''merkez'' = 303"
  by code_simp

end
